theory Spec2Isabelle
  imports Complex_Main "HOL-Library.Log_Nat" "HOL-Library.Sublist" "HOL-Library.Code_Target_Nat"
begin

section \<open>Python floats\<close>

text \<open>
  Chunk bounds and timestamps are Python floats (IEEE 754 binary64), and the timestamp
  adjustment of \<^verbatim>\<open>transcribe_audio\<close> adds them with \<^verbatim>\<open>+=\<close>. A finite double is
  modelled by the rational number it denotes; the sign of zero is not kept (Python's
  \<^verbatim>\<open>==\<close> does not see it either). Addition is the exact sum rounded to the nearest
  double, ties to the even mantissa, with gradual underflow and overflow to infinity.
\<close>

datatype pyfloat = Finite rat | PosInf | NegInf | NaN

definition pow2 :: "int \<Rightarrow> rat" where
  "pow2 e = (if 0 \<le> e then 2 ^ nat e else 1 / 2 ^ nat (- e))"

text \<open>For \<open>0 < x\<close>, \<open>floor_log2 x\<close> is the \<open>k\<close> with \<open>2 ^ k \<le> x < 2 ^ (k + 1)\<close>.\<close>

definition floor_log2 :: "rat \<Rightarrow> int" where
  "floor_log2 x = (case quotient_of x of (p, q) \<Rightarrow>
     (let k = bitlen p - bitlen q in if pow2 k \<le> x then k else k - 1))"

definition round_half_even :: "rat \<Rightarrow> int" where
  "round_half_even x = (let f = \<lfloor>x\<rfloor>; d = x - of_int f in
     if d < 1 / 2 then f else if 1 / 2 < d then f + 1 else if even f then f else f + 1)"

text \<open>
  Rounding of an exact result to binary64: the mantissa has 53 bits, so the unit in the
  last place of \<open>x\<close> is \<open>2 ^ e\<close> with \<open>e = floor_log2 \<bar>x\<bar> - 52\<close>, and never less than
  \<open>2 ^ - 1074\<close> (subnormal numbers). The rounded mantissa \<open>m\<close> is at most \<open>2 ^ 53\<close>, so the
  rounded value \<open>m * 2 ^ e\<close> reaches \<open>2 ^ 1024\<close>, where binary64 overflows, exactly when
  \<open>971 < e\<close>, or \<open>e = 971\<close> and \<open>m = 2 ^ 53\<close>.
\<close>

definition to_double :: "rat \<Rightarrow> pyfloat" where
  "to_double x = (if x = 0 then Finite 0 else
     (let e = max (floor_log2 \<bar>x\<bar> - 52) (- 1074);
          m = round_half_even (\<bar>x\<bar> / pow2 e)
      in if 971 < e \<or> (e = 971 \<and> 2 ^ 53 \<le> m) then (if 0 < x then PosInf else NegInf)
         else Finite (sgn x * of_int m * pow2 e)))"

fun py_add :: "pyfloat \<Rightarrow> pyfloat \<Rightarrow> pyfloat" where
  "py_add (Finite x) (Finite y) = to_double (x + y)"
| "py_add NaN _ = NaN"
| "py_add _ NaN = NaN"
| "py_add PosInf NegInf = NaN"
| "py_add NegInf PosInf = NaN"
| "py_add PosInf _ = PosInf"
| "py_add NegInf _ = NegInf"
| "py_add _ PosInf = PosInf"
| "py_add _ NegInf = NegInf"

fun py_neg :: "pyfloat \<Rightarrow> pyfloat" where
  "py_neg (Finite x) = Finite (- x)"
| "py_neg PosInf = NegInf"
| "py_neg NegInf = PosInf"
| "py_neg NaN = NaN"

definition py_sub :: "pyfloat \<Rightarrow> pyfloat \<Rightarrow> pyfloat" where
  "py_sub a b = py_add a (py_neg b)"

text \<open>
  \<open>exact_add t s\<close>: both operands are finite, \<open>t\<close> is a double, and the float sum
  \<open>t + s\<close> is the exact sum (the addition does not round).
\<close>

fun exact_add :: "pyfloat \<Rightarrow> pyfloat \<Rightarrow> bool" where
  "exact_add (Finite x) (Finite y) = (to_double x = Finite x \<and> to_double (x + y) = Finite (x + y))"
| "exact_add _ _ = False"

section \<open>Python strings and paths\<close>

text \<open>\<^verbatim>\<open>needle in haystack\<close> on strings: \<open>needle\<close> occurs as a contiguous substring.\<close>

fun contains :: "string \<Rightarrow> string \<Rightarrow> bool" where
  "contains needle [] = (needle = [])"
| "contains needle (c # cs) = (prefix needle (c # cs) \<or> contains needle cs)"

text \<open>\<^verbatim>\<open>os.path.join(a, b)\<close> on a POSIX system.\<close>

definition os_path_join :: "string \<Rightarrow> string \<Rightarrow> string" where
  "os_path_join a b =
     (if b \<noteq> [] \<and> hd b = CHR ''/'' then b
      else if a = [] \<or> last a = CHR ''/'' then a @ b
      else a @ ''/'' @ b)"

section \<open>Data model: what the collaborators return\<close>

text \<open>
  A word of an aligned segment is a dictionary; the keys \<^verbatim>\<open>start\<close> and \<^verbatim>\<open>end\<close> are
  absent for a word the aligner could not place, which the source tests with
  \<^verbatim>\<open>'start' in word\<close>. A segment always has \<^verbatim>\<open>start\<close>, \<^verbatim>\<open>end\<close> and
  \<^verbatim>\<open>words\<close>: the source reads them without a test. The dictionaries are
  modelled as values: distinct list positions are distinct objects.
\<close>

record word =
  word_text :: string
  word_start :: "pyfloat option"
  word_end :: "pyfloat option"
  word_score :: "pyfloat option"

record segment =
  seg_start :: pyfloat
  seg_end :: pyfloat
  seg_text :: string
  seg_words :: "word list"

text \<open>The result of \<^verbatim>\<open>model.transcribe\<close>: detected language and unaligned segments.\<close>

record raw_segment =
  raw_start :: pyfloat
  raw_end :: pyfloat
  raw_text :: string

record raw_result =
  language :: string
  raw_segments :: "raw_segment list"

text \<open>The result of \<^verbatim>\<open>whisperx.align\<close>, which \<^verbatim>\<open>transcribe_audio\<close> returns.\<close>

record aligned_result =
  segments :: "segment list"

section \<open>Timestamp adjustment (\<^verbatim>\<open>transcribe_audio\<close>, lines 101-110)\<close>

definition adjust_word :: "pyfloat \<Rightarrow> word \<Rightarrow> word" where
  "adjust_word start w =
     w\<lparr>word_start := (case word_start w of None \<Rightarrow> None | Some t \<Rightarrow> Some (py_add t start)),
       word_end := (case word_end w of None \<Rightarrow> None | Some t \<Rightarrow> Some (py_add t start))\<rparr>"

definition adjust_segment :: "pyfloat \<Rightarrow> segment \<Rightarrow> segment" where
  "adjust_segment start seg =
     seg\<lparr>seg_start := py_add (seg_start seg) start,
         seg_end := py_add (seg_end seg) start,
         seg_words := map (adjust_word start) (seg_words seg)\<rparr>"

definition adjust_timestamps :: "pyfloat \<Rightarrow> aligned_result \<Rightarrow> aligned_result" where
  "adjust_timestamps start result =
     result\<lparr>segments := map (adjust_segment start) (segments result)\<rparr>"

text \<open>
  The inverse operation of the specification's round trip, "subtracting the chunk start
  from the output". It is not part of the source; it follows the specification's words,
  with Python's float subtraction.
\<close>

definition subtract_word :: "pyfloat \<Rightarrow> word \<Rightarrow> word" where
  "subtract_word start w =
     w\<lparr>word_start := (case word_start w of None \<Rightarrow> None | Some t \<Rightarrow> Some (py_sub t start)),
       word_end := (case word_end w of None \<Rightarrow> None | Some t \<Rightarrow> Some (py_sub t start))\<rparr>"

definition subtract_segment :: "pyfloat \<Rightarrow> segment \<Rightarrow> segment" where
  "subtract_segment start seg =
     seg\<lparr>seg_start := py_sub (seg_start seg) start,
         seg_end := py_sub (seg_end seg) start,
         seg_words := map (subtract_word start) (seg_words seg)\<rparr>"

definition subtract_timestamps :: "pyfloat \<Rightarrow> aligned_result \<Rightarrow> aligned_result" where
  "subtract_timestamps start result =
     result\<lparr>segments := map (subtract_segment start) (segments result)\<rparr>"

text \<open>Every timestamp of the chunk result is shifted without rounding.\<close>

definition exact_word :: "pyfloat \<Rightarrow> word \<Rightarrow> bool" where
  "exact_word start w =
     ((case word_start w of None \<Rightarrow> True | Some t \<Rightarrow> exact_add t start) \<and>
      (case word_end w of None \<Rightarrow> True | Some t \<Rightarrow> exact_add t start))"

definition exact_segment :: "pyfloat \<Rightarrow> segment \<Rightarrow> bool" where
  "exact_segment start seg =
     (exact_add (seg_start seg) start \<and> exact_add (seg_end seg) start \<and>
      list_all (exact_word start) (seg_words seg))"

definition exact_shift :: "pyfloat \<Rightarrow> aligned_result \<Rightarrow> bool" where
  "exact_shift start result = list_all (exact_segment start) (segments result)"

section \<open>Inference configuration (\<^verbatim>\<open>transcribe_audio\<close>, lines 22-33)\<close>

text \<open>
  What the three probes of the accelerator return: \<^verbatim>\<open>torch.cuda.is_available()\<close>,
  \<^verbatim>\<open>torch.cuda.get_device_properties(0).total_memory\<close> (bytes, an integer) and
  \<^verbatim>\<open>torch.cuda.is_bf16_supported()\<close>.
\<close>

record capability =
  cuda_available :: bool
  total_memory :: nat
  bf16_supported :: bool

datatype device = Cuda | Cpu

datatype compute_type = Float16 | Int8

record inference_config =
  device :: device
  batch_size :: nat
  compute_type :: compute_type

text \<open>
  \<^verbatim>\<open>gpu_mem = total_memory / (1024**3)\<close> is a true division of integers. It is kept as
  the exact quotient: the division by a power of two is exact for every total below
  \<open>2 ^ 53\<close> bytes, and the source only compares the quotient with 8.
\<close>

definition gpu_mem :: "capability \<Rightarrow> rat" where
  "gpu_mem cap = of_nat (total_memory cap) / (1024 ^ 3)"

definition inference_config :: "capability \<Rightarrow> inference_config" where
  "inference_config cap =
     (let dev = (if cuda_available cap then Cuda else Cpu)
      in if dev = Cuda
         then \<lparr>device = dev,
               batch_size = (if 8 < gpu_mem cap then 16 else 2),
               compute_type = (if bf16_supported cap then Float16 else Int8)\<rparr>
         else \<lparr>device = dev, batch_size = 1, compute_type = Int8\<rparr>)"

text \<open>
  The accelerator itself, of which the specification speaks when it makes the precision
  "the highest-throughput precision the accelerator supports (half precision)": whether
  there is one, the size of its memory in bytes, whether it computes in float16, and
  whether torch reports support for bfloat16 on it. Of these the source reads three
  through the probes; it never asks for float16.
\<close>

record accelerator =
  has_accelerator :: bool
  memory_bytes :: nat
  half_precision :: bool
  reports_bfloat16 :: bool

definition probed :: "accelerator \<Rightarrow> capability" where
  "probed a = \<lparr>cuda_available = has_accelerator a, total_memory = memory_bytes a,
                bf16_supported = reports_bfloat16 a\<rparr>"

text \<open>
  The precision in the specification's words (section 4.2): half precision when the
  accelerator supports it, else the integer-quantized fallback. It is not part of the
  source.
\<close>

definition spec_precision :: "accelerator \<Rightarrow> compute_type" where
  "spec_precision a = (if has_accelerator a \<and> half_precision a then Float16 else Int8)"

section \<open>The world: files, and the trace of calls\<close>

text \<open>
  The code works by calling collaborators: the configuration, torch, whisperx, ffmpeg,
  librosa, the file system, and the helpers of \<^verbatim>\<open>whisperXapi\<close> and \<^verbatim>\<open>demucs_vl\<close>.
  Every call is recorded, in order, in the trace of the world, with the arguments that
  the source passes. The progress display around \<^verbatim>\<open>model.transcribe\<close> is left out.
\<close>

text \<open>
  What a collaborator raises, with the text that \<^verbatim>\<open>str\<close> gives for it: an instance of
  \<^verbatim>\<open>Exception\<close>, or one of the exceptions that derive from \<^verbatim>\<open>BaseException\<close> only
  (\<^verbatim>\<open>KeyboardInterrupt\<close>, \<^verbatim>\<open>SystemExit\<close>), which \<^verbatim>\<open>except Exception\<close> lets pass.
\<close>

datatype exn = Exception string | Interrupt string

text \<open>
  An exception is either the \<^verbatim>\<open>ValueError\<close> of line 91, which asks the user to set the
  transcription language to zh and to retry, or an exception raised by a collaborator.
\<close>

datatype error = LanguageMismatch | Raised exn

text \<open>The exceptions that \<^verbatim>\<open>except Exception\<close> (line 111) catches.\<close>

fun caught :: "error \<Rightarrow> bool" where
  "caught LanguageMismatch = True"
| "caught (Raised (Exception t)) = True"
| "caught (Raised (Interrupt t)) = False"

type_synonym model = nat
type_synonym audio = nat
type_synonym metadata = nat
type_synonym dataframe = nat

datatype message =
    MsgStarting device
  | MsgGpu rat nat compute_type
  | MsgCpu nat compute_type
  | MsgSegment pyfloat pyfloat
  | MsgLoadingLocal string
  | MsgUsingHuggingFace string
  | MsgError error
  | MsgResultsExist
  | MsgSkipDemucs string
  | MsgDemucsCompleted

datatype event =
    LoadKey string
  | CudaIsAvailable
  | GetDeviceProperties
  | IsBf16Supported
  | Rprint message
  | PathExists string
  | LoadModel string device compute_type "string option"
  | NamedTemporaryFile
  | Ffmpeg string pyfloat pyfloat string
  | LibrosaLoad string
  | Unlink string
  | ModelTranscribe model audio nat
  | DelModel
  | EmptyCache
  | SaveLanguage string
  | LoadAlignModel string device
  | Align "raw_segment list" model metadata audio device
  | DelModelA
  | ConvertVideoToAudio string
  | DemucsMain string string string string
  | SplitAudio string
  | ProcessTranscription "segment list"
  | SaveResults dataframe

record world =
  files :: "string set"
  trace :: "event list"

text \<open>
  The environment of a run: the configuration, the constants imported from
  \<^verbatim>\<open>whisperXapi\<close>, the accelerator, and for every collaborator what it returns or
  raises, which may depend on its arguments and on everything that happened before (the
  world at the call). \<open>fs_effect\<close> is what a collaborator does to the file system.
  \<open>markup_error\<close> is the console markup of \<^verbatim>\<open>rich\<close>: a message in which a closing tag
  closes nothing makes \<^verbatim>\<open>rich.print\<close> raise a \<^verbatim>\<open>MarkupError\<close>, whose text is given.
\<close>

record env =
  whisper_language :: string
  model_dir :: string
  audio_dir :: string
  raw_audio_file :: string
  background_audio_file :: string
  vocal_audio_file :: string
  hardware :: capability
  fs_effect :: "event \<Rightarrow> world \<Rightarrow> string set"
  markup_error :: "message \<Rightarrow> string option"
  load_model_out :: "string \<Rightarrow> device \<Rightarrow> compute_type \<Rightarrow> string option \<Rightarrow> world \<Rightarrow> exn + model"
  temp_file_out :: "world \<Rightarrow> exn + string"
  ffmpeg_out :: "string \<Rightarrow> pyfloat \<Rightarrow> pyfloat \<Rightarrow> string \<Rightarrow> world \<Rightarrow> exn + unit"
  librosa_load_out :: "string \<Rightarrow> world \<Rightarrow> exn + audio"
  unlink_out :: "string \<Rightarrow> world \<Rightarrow> exn + unit"
  model_transcribe_out :: "model \<Rightarrow> audio \<Rightarrow> nat \<Rightarrow> world \<Rightarrow> exn + raw_result"
  save_language_out :: "string \<Rightarrow> world \<Rightarrow> exn + unit"
  load_align_model_out :: "string \<Rightarrow> device \<Rightarrow> world \<Rightarrow> exn + model \<times> metadata"
  align_out :: "raw_segment list \<Rightarrow> model \<Rightarrow> metadata \<Rightarrow> audio \<Rightarrow> device \<Rightarrow> world \<Rightarrow> exn + aligned_result"
  convert_video_to_audio_out :: "string \<Rightarrow> world \<Rightarrow> exn + string"
  demucs_main_out :: "string \<Rightarrow> string \<Rightarrow> string \<Rightarrow> string \<Rightarrow> world \<Rightarrow> exn + unit"
  split_audio_out :: "string \<Rightarrow> world \<Rightarrow> exn + (pyfloat \<times> pyfloat) list"
  process_transcription_out :: "segment list \<Rightarrow> world \<Rightarrow> exn + dataframe"
  save_results_out :: "dataframe \<Rightarrow> world \<Rightarrow> exn + unit"

text \<open>A computation either returns a value or raises, and changes the world.\<close>

type_synonym 'a run = "world \<Rightarrow> (error + 'a) \<times> world"

definition returnM :: "'a \<Rightarrow> 'a run" where
  "returnM x w = (Inr x, w)"

definition raiseM :: "error \<Rightarrow> 'a run" where
  "raiseM e w = (Inl e, w)"

definition bindM :: "'a run \<Rightarrow> ('a \<Rightarrow> 'b run) \<Rightarrow> 'b run" where
  "bindM m f w = (case m w of (Inl e, w') \<Rightarrow> (Inl e, w') | (Inr x, w') \<Rightarrow> f x w')"

text \<open>
  A call that cannot fail and touches no file: a probe, a \<^verbatim>\<open>del\<close>, a print of a text
  that the source fixes up to numbers, the device name and names that are constants.
\<close>

definition emit :: "event \<Rightarrow> unit run" where
  "emit ev w = (Inr (), w\<lparr>trace := trace w @ [ev]\<rparr>)"

text \<open>
  \<^verbatim>\<open>rprint\<close> of a message into which the source puts a text that it does not fix (the
  path of the local model, built from the configured model directory, on line 45, and
  the text of an exception on line 112): the call raises when the markup of the message
  is in error.
\<close>

definition rprint_text :: "env \<Rightarrow> message \<Rightarrow> unit run" where
  "rprint_text E msg w =
     ((case markup_error E msg of None \<Rightarrow> Inr () | Some m \<Rightarrow> Inl (Raised (Exception m))),
      w\<lparr>trace := trace w @ [Rprint msg]\<rparr>)"

text \<open>\<^verbatim>\<open>os.path.exists(p)\<close>.\<close>

definition path_exists :: "string \<Rightarrow> bool run" where
  "path_exists p w = (Inr (p \<in> files w), w\<lparr>trace := trace w @ [PathExists p]\<rparr>)"

text \<open>A file comes to exist.\<close>

definition file_written :: "string \<Rightarrow> unit run" where
  "file_written p w = (Inr (), w\<lparr>files := insert p (files w)\<rparr>)"

text \<open>A call of a collaborator that may raise and may change the file system.\<close>

definition external :: "env \<Rightarrow> event \<Rightarrow> (world \<Rightarrow> exn + 'a) \<Rightarrow> 'a run" where
  "external E ev outcome w =
     ((case outcome w of Inl x \<Rightarrow> Inl (Raised x) | Inr v \<Rightarrow> Inr v),
      \<lparr>files = fs_effect E ev w, trace = trace w @ [ev]\<rparr>)"

text \<open>
  Line 112: the handler prints the exception. The text of the \<^verbatim>\<open>ValueError\<close> of line 91
  is fixed by the source and has no markup; the text of a collaborator's exception is
  whatever the collaborator put there.
\<close>

definition print_error :: "env \<Rightarrow> error \<Rightarrow> unit run" where
  "print_error E err =
     (if err = LanguageMismatch then emit (Rprint (MsgError err))
      else rprint_text E (MsgError err))"

text \<open>
  \<^verbatim>\<open>try: ... except Exception as e: rprint(...); raise\<close> (lines 36 and 111-113). An
  exception that is not an \<^verbatim>\<open>Exception\<close> passes through unprinted. One that is caught is
  printed and raised again, unless the print itself raises: then that exception leaves
  the handler in its place.
\<close>

definition try_log :: "env \<Rightarrow> 'a run \<Rightarrow> 'a run" where
  "try_log E m w = (case m w of
       (Inl err, w') \<Rightarrow>
         (if caught err
          then (case print_error E err w' of
                  (Inl err', w'') \<Rightarrow> (Inl err', w'')
                | (Inr u, w'') \<Rightarrow> (Inl err, w''))
          else (Inl err, w'))
     | (Inr x, w') \<Rightarrow> (Inr x, w'))"

definition events_since :: "world \<Rightarrow> world \<Rightarrow> event list" where
  "events_since w w' = drop (length (trace w)) (trace w')"

section \<open>\<^verbatim>\<open>transcribe_audio\<close>\<close>

text \<open>
  Lines 21-34: the configured language is read, the accelerator is probed, and batch size
  and compute type are chosen and printed.
\<close>

definition announce :: "env \<Rightarrow> pyfloat \<Rightarrow> pyfloat \<Rightarrow> inference_config run" where
  "announce E start end' =
     bindM (emit (LoadKey ''whisper.language'')) (\<lambda>_.
     bindM (emit CudaIsAvailable) (\<lambda>_.
     let cfg = inference_config (hardware E) in
     bindM (emit (Rprint (MsgStarting (device cfg)))) (\<lambda>_.
     bindM (if device cfg = Cuda
            then bindM (emit GetDeviceProperties) (\<lambda>_.
                 bindM (emit IsBf16Supported) (\<lambda>_.
                 emit (Rprint (MsgGpu (gpu_mem (hardware E)) (batch_size cfg) (compute_type cfg)))))
            else emit (Rprint (MsgCpu (batch_size cfg) (compute_type cfg)))) (\<lambda>_.
     bindM (emit (Rprint (MsgSegment start end'))) (\<lambda>_.
     returnM cfg)))))"

text \<open>
  Lines 37-82: the model is chosen and loaded, the chunk is cut out with ffmpeg and
  loaded, and the model transcribes it.
\<close>

definition load_and_transcribe ::
  "env \<Rightarrow> inference_config \<Rightarrow> string \<Rightarrow> pyfloat \<Rightarrow> pyfloat \<Rightarrow> (raw_result \<times> audio) run" where
  "load_and_transcribe E cfg audio_file start end' =
     (let zh = (whisper_language E = ''zh'');
          hub_name = (if zh then ''Huan69/Belle-whisper-large-v3-zh-punct-fasterwhisper''
                      else ''large-v3'');
          local_model = os_path_join (model_dir E)
                          (if zh then ''Belle-whisper-large-v3-zh-punct'' else ''large-v3'')
      in
      bindM (path_exists local_model) (\<lambda>is_local.
      bindM (if is_local then rprint_text E (MsgLoadingLocal local_model)
             else emit (Rprint (MsgUsingHuggingFace hub_name))) (\<lambda>_.
      let model_name = (if is_local then local_model else hub_name);
          lang = (if contains ''auto'' (whisper_language E) then None
                  else Some (whisper_language E))
      in
      bindM (external E (LoadModel model_name (device cfg) (compute_type cfg) lang)
               (load_model_out E model_name (device cfg) (compute_type cfg) lang)) (\<lambda>model.
      bindM (external E NamedTemporaryFile (temp_file_out E)) (\<lambda>temp_audio_path.
      bindM (external E (Ffmpeg audio_file start (py_sub end' start) temp_audio_path)
               (ffmpeg_out E audio_file start (py_sub end' start) temp_audio_path)) (\<lambda>_.
      bindM (external E (LibrosaLoad temp_audio_path)
               (librosa_load_out E temp_audio_path)) (\<lambda>audio_segment.
      bindM (external E (Unlink temp_audio_path) (unlink_out E temp_audio_path)) (\<lambda>_.
      bindM (external E (ModelTranscribe model audio_segment (batch_size cfg))
               (model_transcribe_out E model audio_segment (batch_size cfg))) (\<lambda>result.
      returnM (result, audio_segment))))))))))"

text \<open>
  Lines 37-86: after the transcription, the model is deleted and the cache emptied
  (lines 84-86).
\<close>

definition whisper_pass ::
  "env \<Rightarrow> inference_config \<Rightarrow> string \<Rightarrow> pyfloat \<Rightarrow> pyfloat \<Rightarrow> (raw_result \<times> audio) run" where
  "whisper_pass E cfg audio_file start end' =
     bindM (load_and_transcribe E cfg audio_file start end') (\<lambda>(result, audio_segment).
     bindM (emit DelModel) (\<lambda>_.
     bindM (emit EmptyCache) (\<lambda>_.
     returnM (result, audio_segment))))"

text \<open>Lines 88-91: the detected language is saved, then checked.\<close>

definition save_and_check_language :: "env \<Rightarrow> raw_result \<Rightarrow> unit run" where
  "save_and_check_language E result =
     bindM (external E (SaveLanguage (language result))
              (save_language_out E (language result))) (\<lambda>_.
     if language result = ''zh'' \<and> whisper_language E \<noteq> ''zh''
     then raiseM LanguageMismatch
     else returnM ())"

text \<open>Lines 93-99: alignment, then the cache is emptied and the alignment model deleted.\<close>

definition align_pass ::
  "env \<Rightarrow> inference_config \<Rightarrow> raw_result \<Rightarrow> audio \<Rightarrow> aligned_result run" where
  "align_pass E cfg result audio_segment =
     bindM (external E (LoadAlignModel (language result) (device cfg))
              (load_align_model_out E (language result) (device cfg))) (\<lambda>(model_a, metadata).
     bindM (external E (Align (raw_segments result) model_a metadata audio_segment (device cfg))
              (align_out E (raw_segments result) model_a metadata audio_segment (device cfg)))
       (\<lambda>aligned.
     bindM (emit EmptyCache) (\<lambda>_.
     bindM (emit DelModelA) (\<lambda>_.
     returnM aligned))))"

text \<open>Lines 36-113: the body of the \<^verbatim>\<open>try\<close>.\<close>

definition transcribe_audio_body ::
  "env \<Rightarrow> inference_config \<Rightarrow> string \<Rightarrow> pyfloat \<Rightarrow> pyfloat \<Rightarrow> aligned_result run" where
  "transcribe_audio_body E cfg audio_file start end' =
     bindM (whisper_pass E cfg audio_file start end') (\<lambda>(result, audio_segment).
     bindM (save_and_check_language E result) (\<lambda>_.
     bindM (align_pass E cfg result audio_segment) (\<lambda>aligned.
     returnM (adjust_timestamps start aligned))))"

definition transcribe_audio :: "env \<Rightarrow> string \<Rightarrow> pyfloat \<Rightarrow> pyfloat \<Rightarrow> aligned_result run" where
  "transcribe_audio E audio_file start end' =
     bindM (announce E start end') (\<lambda>cfg.
     try_log E (transcribe_audio_body E cfg audio_file start end'))"

section \<open>\<^verbatim>\<open>transcribe\<close>\<close>

definition final_artifact :: string where
  "final_artifact = ''output/log/cleaned_chunks.xlsx''"

definition background_path :: "env \<Rightarrow> string" where
  "background_path E = os_path_join (audio_dir E) (background_audio_file E)"

definition vocal_path :: "env \<Rightarrow> string" where
  "vocal_path E = os_path_join (audio_dir E) (vocal_audio_file E)"

definition raw_path :: "env \<Rightarrow> string" where
  "raw_path E = os_path_join (audio_dir E) (raw_audio_file E)"

text \<open>
  Lines 120-137: the audio track is extracted, the vocals are separated unless the
  background file exists, and the vocal file is split into chunks. The result is the
  audio file that is transcribed, and the chunks. The path that line 124 prints is made
  of constants of \<^verbatim>\<open>whisperXapi\<close>, which are taken to be free of console markup; line 132
  is a plain \<^verbatim>\<open>print\<close>.
\<close>

definition separate_and_split :: "env \<Rightarrow> string \<Rightarrow> (string \<times> (pyfloat \<times> pyfloat) list) run" where
  "separate_and_split E video_file =
     bindM (external E (ConvertVideoToAudio video_file)
              (convert_video_to_audio_out E video_file)) (\<lambda>_.
     bindM (path_exists (background_path E)) (\<lambda>have_background.
     bindM (if have_background
            then emit (Rprint (MsgSkipDemucs (background_path E)))
            else bindM (external E (DemucsMain (raw_path E) (audio_dir E)
                                      (background_path E) (vocal_path E))
                          (demucs_main_out E (raw_path E) (audio_dir E)
                             (background_path E) (vocal_path E))) (\<lambda>_.
                 emit (Rprint MsgDemucsCompleted))) (\<lambda>_.
     let audio_file = vocal_path E in
     bindM (external E (SplitAudio audio_file) (split_audio_out E audio_file)) (\<lambda>chunks.
     returnM (audio_file, chunks)))))"

text \<open>Lines 139-143: the loop over the chunks, with the list \<^verbatim>\<open>all_results\<close>.\<close>

fun transcribe_chunks ::
  "env \<Rightarrow> string \<Rightarrow> (pyfloat \<times> pyfloat) list \<Rightarrow> aligned_result list \<Rightarrow> aligned_result list run" where
  "transcribe_chunks E audio_file [] all_results = returnM all_results"
| "transcribe_chunks E audio_file ((start, end') # rest) all_results =
     bindM (transcribe_audio E audio_file start end') (\<lambda>result.
     transcribe_chunks E audio_file rest (all_results @ [result]))"

text \<open>
  Modelled from the spec: \<^verbatim>\<open>save_results\<close> of
  \<^verbatim>\<open>core/all_whisper_methods/whisperXapi.py\<close>, which is not among the sources. The
  specification (sections 4.5 and 6) has the run complete by writing the final transcript
  artifact, whose existence is the signal of the whole-run skip: when the call returns,
  the file that line 116 tests exists.
\<close>

definition save_results :: "env \<Rightarrow> dataframe \<Rightarrow> unit run" where
  "save_results E df =
     bindM (external E (SaveResults df) (save_results_out E df)) (\<lambda>_.
     file_written final_artifact)"

text \<open>Lines 145-151: the segments of all chunks are concatenated and handed over.\<close>

definition combine_and_save :: "env \<Rightarrow> aligned_result list \<Rightarrow> unit run" where
  "combine_and_save E all_results =
     (let combined = foldl (\<lambda>acc result. acc @ segments result) [] all_results in
      bindM (external E (ProcessTranscription combined)
               (process_transcription_out E combined)) (\<lambda>df.
      save_results E df))"

definition transcribe :: "env \<Rightarrow> string \<Rightarrow> unit run" where
  "transcribe E video_file =
     bindM (path_exists final_artifact) (\<lambda>already.
     if already then emit (Rprint MsgResultsExist)
     else bindM (separate_and_split E video_file) (\<lambda>(audio_file, chunks).
          bindM (transcribe_chunks E audio_file chunks []) (\<lambda>all_results.
          combine_and_save E all_results)))"

section \<open>Properties of traces\<close>

text \<open>
  Whatever the world, the computation only appends to the trace, and every event that it
  appends satisfies \<open>P\<close>.
\<close>

definition emits :: "(event \<Rightarrow> bool) \<Rightarrow> 'a run \<Rightarrow> bool" where
  "emits P m = (\<forall>w. \<exists>evs. trace (snd (m w)) = trace w @ evs \<and> list_all P evs)"

text \<open>Whatever the world, the computation does not raise the error of line 91.\<close>

definition never_mismatch :: "'a run \<Rightarrow> bool" where
  "never_mismatch m = (\<forall>w. fst (m w) \<noteq> Inl LanguageMismatch)"

text \<open>A call of \<^verbatim>\<open>save_language\<close>.\<close>

definition is_save_language :: "event \<Rightarrow> bool" where
  "is_save_language ev = (case ev of SaveLanguage _ \<Rightarrow> True | _ \<Rightarrow> False)"

text \<open>The calls of lines 21-34, of lines 37-82, and of lines 94-99 and 112.\<close>

definition announce_event :: "event \<Rightarrow> bool" where
  "announce_event ev = (case ev of
       LoadKey _ \<Rightarrow> True | CudaIsAvailable \<Rightarrow> True | GetDeviceProperties \<Rightarrow> True
     | IsBf16Supported \<Rightarrow> True | Rprint _ \<Rightarrow> True | _ \<Rightarrow> False)"

definition transcription_event :: "event \<Rightarrow> bool" where
  "transcription_event ev = (case ev of
       PathExists _ \<Rightarrow> True | Rprint _ \<Rightarrow> True | LoadModel _ _ _ _ \<Rightarrow> True
     | NamedTemporaryFile \<Rightarrow> True | Ffmpeg _ _ _ _ \<Rightarrow> True | LibrosaLoad _ \<Rightarrow> True
     | Unlink _ \<Rightarrow> True | ModelTranscribe _ _ _ \<Rightarrow> True | _ \<Rightarrow> False)"

definition align_event :: "event \<Rightarrow> bool" where
  "align_event ev = (case ev of
       LoadAlignModel _ _ \<Rightarrow> True | Align _ _ _ _ _ \<Rightarrow> True | EmptyCache \<Rightarrow> True
     | DelModelA \<Rightarrow> True | Rprint _ \<Rightarrow> True | _ \<Rightarrow> False)"

text \<open>The calls that only \<^verbatim>\<open>transcribe\<close> makes, those of lines 120-137, and those of lines 150-151.\<close>

definition coordinator_event :: "event \<Rightarrow> bool" where
  "coordinator_event ev = (case ev of
       ConvertVideoToAudio _ \<Rightarrow> True | DemucsMain _ _ _ _ \<Rightarrow> True | SplitAudio _ \<Rightarrow> True
     | ProcessTranscription _ \<Rightarrow> True | SaveResults _ \<Rightarrow> True | _ \<Rightarrow> False)"

definition separation_event :: "event \<Rightarrow> bool" where
  "separation_event ev = (case ev of
       ConvertVideoToAudio _ \<Rightarrow> True | PathExists _ \<Rightarrow> True | Rprint _ \<Rightarrow> True
     | DemucsMain _ _ _ _ \<Rightarrow> True | SplitAudio _ \<Rightarrow> True | _ \<Rightarrow> False)"

definition saving_event :: "event \<Rightarrow> bool" where
  "saving_event ev = (case ev of
       ProcessTranscription _ \<Rightarrow> True | SaveResults _ \<Rightarrow> True | _ \<Rightarrow> False)"

text \<open>
  The transcription model is released: it is deleted, and after that the cache of the
  accelerator is emptied (lines 85-86).
\<close>

definition model_released :: "event list \<Rightarrow> bool" where
  "model_released evs = (EmptyCache \<in> set (dropWhile (\<lambda>ev. ev \<noteq> DelModel) evs))"

text \<open>
  Lines 21-86 of one chunk invocation: what the transcription of the chunk gives, and the
  world in which the detected language is then saved.
\<close>

definition chunk_transcription ::
  "env \<Rightarrow> string \<Rightarrow> pyfloat \<Rightarrow> pyfloat \<Rightarrow> (raw_result \<times> audio) run" where
  "chunk_transcription E audio_file start end' w =
     whisper_pass E (inference_config (hardware E)) audio_file start end'
       (snd (announce E start end' w))"

section \<open>Example inputs\<close>

text \<open>
  A chunk result with one segment of two words, the second without timestamps, and one
  whose segment starts at the double nearest to 0.1.
\<close>

definition demo_word :: word where
  "demo_word = \<lparr>word_text = ''hi'', word_start = Some (Finite 1),
                 word_end = Some (Finite (3 / 2)), word_score = None\<rparr>"

definition demo_unaligned_word :: word where
  "demo_unaligned_word =
     \<lparr>word_text = ''2024'', word_start = None, word_end = None, word_score = None\<rparr>"

definition demo_aligned :: aligned_result where
  "demo_aligned =
     \<lparr>segments = [\<lparr>seg_start = Finite 1, seg_end = Finite (3 / 2), seg_text = ''hi 2024'',
                    seg_words = [demo_word, demo_unaligned_word]\<rparr>]\<rparr>"

definition demo_inexact :: aligned_result where
  "demo_inexact =
     \<lparr>segments = [\<lparr>seg_start = Finite (3602879701896397 / 36028797018963968),
                    seg_end = Finite (3 / 2), seg_text = ''hi'', seg_words = []\<rparr>]\<rparr>"

text \<open>
  An accelerator with 16 GiB that computes in float16 and on which no support for
  bfloat16 is reported.
\<close>

definition demo_float16_only :: accelerator where
  "demo_float16_only =
     \<lparr>has_accelerator = True, memory_bytes = 16 * 1024 ^ 3, half_precision = True,
      reports_bfloat16 = False\<rparr>"

text \<open>
  A run on an accelerator with 24 GiB and bfloat16, with no model in the local model
  directory, in which every collaborator but the transcription returns; the vocal file
  is split into two chunks of 50 seconds. The configured language and what the
  transcription gives are left open.
\<close>

definition demo_hardware :: capability where
  "demo_hardware =
     \<lparr>cuda_available = True, total_memory = 24 * 1024 ^ 3, bf16_supported = True\<rparr>"

definition demo_raw :: "string \<Rightarrow> raw_result" where
  "demo_raw lang =
     \<lparr>language = lang,
      raw_segments = [\<lparr>raw_start = Finite 1, raw_end = Finite (3 / 2), raw_text = ''hi 2024''\<rparr>]\<rparr>"

definition demo_env :: "string \<Rightarrow> (world \<Rightarrow> exn + raw_result) \<Rightarrow> env" where
  "demo_env configured transcription =
     \<lparr>whisper_language = configured,
      model_dir = ''_model_cache'',
      audio_dir = ''output/audio'',
      raw_audio_file = ''raw_full_audio.wav'',
      background_audio_file = ''background.mp3'',
      vocal_audio_file = ''original_vocal.mp3'',
      hardware = demo_hardware,
      fs_effect = (\<lambda>ev w. files w),
      markup_error = (\<lambda>msg. None),
      load_model_out = (\<lambda>name dev ct lang w. Inr 10),
      temp_file_out = (\<lambda>w. Inr ''/tmp/tmpchunk.mp3''),
      ffmpeg_out = (\<lambda>file start duration out w. Inr ()),
      librosa_load_out = (\<lambda>file w. Inr 20),
      unlink_out = (\<lambda>file w. Inr ()),
      model_transcribe_out = (\<lambda>model audio batch. transcription),
      save_language_out = (\<lambda>lang w. Inr ()),
      load_align_model_out = (\<lambda>lang dev w. Inr (30, 40)),
      align_out = (\<lambda>segs model_a metadata audio dev w. Inr demo_aligned),
      convert_video_to_audio_out = (\<lambda>video w. Inr ''output/audio/raw_full_audio.wav''),
      demucs_main_out = (\<lambda>raw dir background vocal w. Inr ()),
      split_audio_out = (\<lambda>file w. Inr [(Finite 0, Finite 50), (Finite 50, Finite 100)]),
      process_transcription_out = (\<lambda>segs w. Inr 50),
      save_results_out = (\<lambda>df w. Inr ())\<rparr>"

text \<open>The first chunk is detected as English, every later one as French.\<close>

definition two_languages :: "world \<Rightarrow> exn + raw_result" where
  "two_languages w =
     Inr (demo_raw (case filter is_save_language (trace w) of [] \<Rightarrow> ''en'' | _ \<Rightarrow> ''fr''))"

text \<open>The first chunk is detected as English, every later one as Chinese.\<close>

definition english_then_chinese :: "world \<Rightarrow> exn + raw_result" where
  "english_then_chinese w =
     Inr (demo_raw (case filter is_save_language (trace w) of [] \<Rightarrow> ''en'' | _ \<Rightarrow> ''zh''))"

text \<open>The transcription runs out of accelerator memory.\<close>

definition out_of_memory :: "world \<Rightarrow> exn + raw_result" where
  "out_of_memory w = Inl (Exception ''CUDA out of memory'')"

text \<open>
  Three worlds with an empty trace: no file yet, only the background file of an earlier
  separation, and only the final transcript.
\<close>

definition demo_world :: world where
  "demo_world = \<lparr>files = {}, trace = []\<rparr>"


definition demo_world_finished :: world where
  "demo_world_finished = \<lparr>files = {''output/log/cleaned_chunks.xlsx''}, trace = []\<rparr>"

section \<open>Float arithmetic at the example inputs\<close>

lemma to_double_1: "to_double 1 = Finite 1"
  by code_simp

lemma to_double_3_2: "to_double (3 / 2) = Finite (3 / 2)"
  by code_simp

lemma to_double_51: "to_double 51 = Finite 51"
  by code_simp

lemma to_double_103_2: "to_double (103 / 2) = Finite (103 / 2)"
  by code_simp

lemma py_add_tenth_50:
  "py_add (Finite (3602879701896397 / 36028797018963968)) (Finite 50) =
     Finite (7050948166601933 / 140737488355328)"
  by code_simp

lemma py_sub_tenth_50:
  "py_sub (Finite (7050948166601933 / 140737488355328)) (Finite 50) =
     Finite (14073748835533 / 140737488355328)"
  by code_simp

lemma py_add_3_2: "py_add (Finite (3 / 2)) (Finite 50) = Finite (103 / 2)"
  by code_simp

lemma py_sub_3_2: "py_sub (Finite (103 / 2)) (Finite 50) = Finite (3 / 2)"
  by code_simp

section \<open>Timestamp adjustment\<close>

lemma py_sub_py_add_exact: "exact_add t s \<Longrightarrow> py_sub (py_add t s) s = t"
  by (cases t; cases s) (simp_all add: py_sub_def)

lemma subtract_adjust_word: "exact_word s w \<Longrightarrow> subtract_word s (adjust_word s w) = w"
  by (simp add: exact_word_def subtract_word_def adjust_word_def py_sub_py_add_exact
      split: option.splits)

lemma subtract_adjust_words:
  "list_all (exact_word s) ws \<Longrightarrow> map (subtract_word s \<circ> adjust_word s) ws = ws"
  by (induction ws) (simp_all add: subtract_adjust_word)

lemma subtract_adjust_segment:
  "exact_segment s seg \<Longrightarrow> subtract_segment s (adjust_segment s seg) = seg"
  by (simp add: exact_segment_def subtract_segment_def adjust_segment_def py_sub_py_add_exact
      subtract_adjust_words)

lemma subtract_adjust_segments:
  "list_all (exact_segment s) segs \<Longrightarrow> map (subtract_segment s \<circ> adjust_segment s) segs = segs"
  by (induction segs) (simp_all add: subtract_adjust_segment)

text \<open>
  C3, as the code has it. The adjustment keeps the number and order of the segments and
  of the words of every segment, and their texts and scores. It replaces the start and
  the end of every segment by their float sum with the chunk start, and likewise every
  word start and word end that is present; an absent one stays absent. Subtracting the
  chunk start again gives back the input when no addition rounded (\<open>exact_shift\<close>); float
  addition rounds in general, and then the difference is not the input.
\<close>

theorem adjust_timestamps_shift:
  "length (segments (adjust_timestamps s r)) = length (segments r) \<and>
   (\<forall>i < length (segments r).
      seg_start (segments (adjust_timestamps s r) ! i) = py_add (seg_start (segments r ! i)) s \<and>
      seg_end (segments (adjust_timestamps s r) ! i) = py_add (seg_end (segments r ! i)) s \<and>
      seg_text (segments (adjust_timestamps s r) ! i) = seg_text (segments r ! i) \<and>
      length (seg_words (segments (adjust_timestamps s r) ! i)) =
        length (seg_words (segments r ! i)) \<and>
      (\<forall>j < length (seg_words (segments r ! i)).
         word_start (seg_words (segments (adjust_timestamps s r) ! i) ! j) =
           map_option (\<lambda>t. py_add t s) (word_start (seg_words (segments r ! i) ! j)) \<and>
         word_end (seg_words (segments (adjust_timestamps s r) ! i) ! j) =
           map_option (\<lambda>t. py_add t s) (word_end (seg_words (segments r ! i) ! j)) \<and>
         word_text (seg_words (segments (adjust_timestamps s r) ! i) ! j) =
           word_text (seg_words (segments r ! i) ! j) \<and>
         word_score (seg_words (segments (adjust_timestamps s r) ! i) ! j) =
           word_score (seg_words (segments r ! i) ! j))) \<and>
   (exact_shift s r \<longrightarrow> subtract_timestamps s (adjust_timestamps s r) = r)"
  by (simp add: adjust_timestamps_def adjust_segment_def adjust_word_def subtract_timestamps_def
      exact_shift_def subtract_adjust_segments split: option.splits)

text \<open>
  The specification's scenario 2: chunk start 50, a word from 1.0 to 1.5, and a word
  without timestamps.
\<close>

theorem adjust_timestamps_shift_witness:
  "exact_shift (Finite 50) demo_aligned \<and>
   adjust_timestamps (Finite 50) demo_aligned =
     \<lparr>segments = [\<lparr>seg_start = Finite 51, seg_end = Finite (103 / 2), seg_text = ''hi 2024'',
        seg_words = [\<lparr>word_text = ''hi'', word_start = Some (Finite 51),
                      word_end = Some (Finite (103 / 2)), word_score = None\<rparr>,
                     demo_unaligned_word]\<rparr>]\<rparr> \<and>
   subtract_timestamps (Finite 50) (adjust_timestamps (Finite 50) demo_aligned) = demo_aligned"
proof -
  have ex: "exact_shift (Finite 50) demo_aligned"
    by (simp add: exact_shift_def exact_segment_def exact_word_def demo_aligned_def demo_word_def
        demo_unaligned_word_def to_double_1 to_double_3_2 to_double_51 to_double_103_2)
  have val: "adjust_timestamps (Finite 50) demo_aligned =
     \<lparr>segments = [\<lparr>seg_start = Finite 51, seg_end = Finite (103 / 2), seg_text = ''hi 2024'',
        seg_words = [\<lparr>word_text = ''hi'', word_start = Some (Finite 51),
                      word_end = Some (Finite (103 / 2)), word_score = None\<rparr>,
                     demo_unaligned_word]\<rparr>]\<rparr>"
    by (simp add: adjust_timestamps_def adjust_segment_def adjust_word_def demo_aligned_def
        demo_word_def demo_unaligned_word_def to_double_51 to_double_103_2)
  from ex val adjust_timestamps_shift [of "Finite 50" demo_aligned] show ?thesis
    by simp
qed

text \<open>
  C3 as stated fails: with chunk start 50 and a segment that starts at 0.1, the sum is
  rounded to 50.1, and 50.1 - 50 is 0.10000000000000142, not 0.1.
\<close>

theorem round_trip_counterexample:
  "subtract_timestamps (Finite 50) (adjust_timestamps (Finite 50) demo_inexact) \<noteq> demo_inexact"
  by (simp add: subtract_timestamps_def adjust_timestamps_def adjust_segment_def
      subtract_segment_def demo_inexact_def py_add_tenth_50 py_sub_tenth_50 py_add_3_2 py_sub_3_2
      del: py_add.simps)

section \<open>Inference configuration\<close>

text \<open>
  C7, as the code has it. The configuration is a function of the three probes alone:
  without an accelerator, batch size 1 and int8; with one, batch size 16 when the total
  memory exceeds 8 GiB and 2 otherwise, and float16 when the accelerator reports support
  for bfloat16 (line 28) and int8 otherwise. Whether the accelerator computes in float16
  is not asked. Every chunk invocation computes exactly this configuration of the run's
  hardware.
\<close>

theorem inference_config_of_capability:
  "inference_config cap =
     (if cuda_available cap
      then \<lparr>device = Cuda,
            batch_size = (if 8 * 1024 ^ 3 < total_memory cap then 16 else 2),
            compute_type = (if bf16_supported cap then Float16 else Int8)\<rparr>
      else \<lparr>device = Cpu, batch_size = 1, compute_type = Int8\<rparr>) \<and>
   compute_type (inference_config (probed a)) =
     (if has_accelerator a \<and> reports_bfloat16 a then Float16 else Int8) \<and>
   fst (announce E start end' w) = Inr (inference_config (hardware E))"
proof -
  have "(8 < gpu_mem cap) = (8 * 1024 ^ 3 < total_memory cap)"
  proof -
    have "(8 < gpu_mem cap) = ((8::rat) * 1024 ^ 3 < of_nat (total_memory cap))"
      by (simp add: gpu_mem_def pos_less_divide_eq)
    also have "\<dots> = ((of_nat (8 * 1024 ^ 3) :: rat) < of_nat (total_memory cap))"
      by simp
    also have "\<dots> = (8 * 1024 ^ 3 < total_memory cap)"
      by (simp only: of_nat_less_iff)
    finally show ?thesis .
  qed
  moreover have "fst (announce E start end' w) = Inr (inference_config (hardware E))"
    by (simp add: announce_def bindM_def emit_def returnM_def Let_def)
  ultimately show ?thesis
    by (simp add: inference_config_def probed_def Let_def)
qed

text \<open>
  The specification's scenario 4, no accelerator, and an accelerator with 24 GiB and
  bfloat16.
\<close>

theorem inference_config_of_capability_witness:
  "inference_config \<lparr>cuda_available = False, total_memory = 0, bf16_supported = False\<rparr> =
     \<lparr>device = Cpu, batch_size = 1, compute_type = Int8\<rparr> \<and>
   inference_config demo_hardware = \<lparr>device = Cuda, batch_size = 16, compute_type = Float16\<rparr>"
  using inference_config_of_capability
      [of "\<lparr>cuda_available = False, total_memory = 0, bf16_supported = False\<rparr>"]
    inference_config_of_capability [of demo_hardware]
  by (simp add: demo_hardware_def)

text \<open>
  C7 as stated fails: an accelerator with 16 GiB that computes in float16, and on which
  no support for bfloat16 is reported, supports half precision, and the configuration is
  int8.
\<close>

theorem half_precision_counterexample:
  "has_accelerator demo_float16_only \<and> half_precision demo_float16_only \<and>
   spec_precision demo_float16_only = Float16 \<and>
   inference_config (probed demo_float16_only) =
     \<lparr>device = Cuda, batch_size = 16, compute_type = Int8\<rparr>"
  by (simp add: demo_float16_only_def spec_precision_def probed_def inference_config_def
      gpu_mem_def)

section \<open>Traces\<close>

lemma events_since_append: "trace w' = trace w @ evs \<Longrightarrow> events_since w w' = evs"
  by (simp add: events_since_def)

lemma emitsD:
  "emits P m \<Longrightarrow> m w = (r, w') \<Longrightarrow> \<exists>evs. trace w' = trace w @ evs \<and> list_all P evs"
  by (metis emits_def snd_conv)

lemma emits_mono: "emits P m \<Longrightarrow> (\<And>ev. P ev \<Longrightarrow> Q ev) \<Longrightarrow> emits Q m"
  unfolding emits_def list_all_iff by meson

lemma emits_returnM: "emits P (returnM x)"
  by (simp add: emits_def returnM_def)

lemma emits_raiseM: "emits P (raiseM e)"
  by (simp add: emits_def raiseM_def)

lemma emits_emit: "P ev \<Longrightarrow> emits P (emit ev)"
  by (simp add: emits_def emit_def)

lemma emits_path_exists: "P (PathExists p) \<Longrightarrow> emits P (path_exists p)"
  by (simp add: emits_def path_exists_def)

lemma emits_external: "P ev \<Longrightarrow> emits P (external E ev out)"
  by (simp add: emits_def external_def)

lemma emits_bindM:
  assumes "emits P m" and "\<And>x. emits P (f x)"
  shows "emits P (bindM m f)"
  unfolding emits_def
proof
  fix w
  obtain r w1 where m: "m w = (r, w1)" by (cases "m w")
  from emitsD [OF assms(1) m] obtain evs1 where e1: "trace w1 = trace w @ evs1" "list_all P evs1"
    by blast
  show "\<exists>evs. trace (snd (bindM m f w)) = trace w @ evs \<and> list_all P evs"
  proof (cases r)
    case (Inl e)
    with m e1 show ?thesis by (simp add: bindM_def)
  next
    case (Inr x)
    obtain r2 w2 where f: "f x w1 = (r2, w2)" by (cases "f x w1")
    from emitsD [OF assms(2) f] obtain evs2 where e2: "trace w2 = trace w1 @ evs2" "list_all P evs2"
      by blast
    from Inr m f e1 e2
    have "trace (snd (bindM m f w)) = trace w @ (evs1 @ evs2) \<and> list_all P (evs1 @ evs2)"
      by (simp add: bindM_def)
    then show ?thesis by blast
  qed
qed

lemma emits_rprint_text: "P (Rprint msg) \<Longrightarrow> emits P (rprint_text E msg)"
  by (simp add: emits_def rprint_text_def)

lemma print_error_trace:
  "trace (snd (print_error E err w)) = trace w @ [Rprint (MsgError err)]"
  by (simp add: print_error_def emit_def rprint_text_def)

lemma try_log_trace:
  "trace (snd (try_log E m w)) = trace (snd (m w)) @
     (case fst (m w) of Inl err \<Rightarrow> if caught err then [Rprint (MsgError err)] else []
      | Inr x \<Rightarrow> [])"
proof -
  obtain r w1 where m: "m w = (r, w1)" by (cases "m w")
  show ?thesis
  proof (cases r)
    case (Inl err)
    obtain r2 w2 where p: "print_error E err w1 = (r2, w2)" by (cases "print_error E err w1")
    with print_error_trace [of E err w1] have "trace w2 = trace w1 @ [Rprint (MsgError err)]"
      by simp
    with m Inl p show ?thesis by (simp add: try_log_def split: sum.splits)
  next
    case (Inr x)
    with m show ?thesis by (simp add: try_log_def)
  qed
qed

lemma emits_try_log:
  assumes "emits P m" and "\<And>e. P (Rprint (MsgError e))"
  shows "emits P (try_log E m)"
  unfolding emits_def
proof
  fix w
  obtain r w1 where m: "m w = (r, w1)" by (cases "m w")
  from emitsD [OF assms(1) m] obtain evs1 where e1: "trace w1 = trace w @ evs1" "list_all P evs1"
    by blast
  define evs2 where "evs2 = (case r of Inl err \<Rightarrow> if caught err then [Rprint (MsgError err)] else []
      | Inr x \<Rightarrow> [])"
  have "list_all P evs2"
    unfolding evs2_def using assms(2) by (simp split: sum.splits)
  moreover have "trace (snd (try_log E m w)) = trace w @ (evs1 @ evs2)"
    using try_log_trace [of E m w] m e1 by (simp add: evs2_def)
  ultimately have "trace (snd (try_log E m w)) = trace w @ (evs1 @ evs2) \<and> list_all P (evs1 @ evs2)"
    using e1 by simp
  then show "\<exists>evs. trace (snd (try_log E m w)) = trace w @ evs \<and> list_all P evs"
    by blast
qed

lemma emits_if: "emits P a \<Longrightarrow> emits P b \<Longrightarrow> emits P (if c then a else b)"
  by simp

lemma emits_case_prod: "(\<And>a b. emits P (f a b)) \<Longrightarrow> emits P (case_prod f x)"
  by (cases x) simp

lemmas emits_intros = emits_bindM emits_returnM emits_raiseM emits_emit emits_path_exists
  emits_external emits_rprint_text emits_try_log emits_if emits_case_prod

lemma emits_announce: "emits announce_event (announce E s e)"
  unfolding announce_def Let_def
  by (intro emits_intros) (simp_all add: announce_event_def)

lemma emits_load_and_transcribe: "emits transcription_event (load_and_transcribe E cfg af s e)"
  unfolding load_and_transcribe_def Let_def
  by (intro emits_intros) (simp_all add: transcription_event_def)

lemma emits_align_pass: "emits align_event (align_pass E cfg raw au)"
  unfolding align_pass_def
  by (intro emits_intros) (simp_all add: align_event_def)

lemma emits_transcribe_audio:
  assumes "\<And>ev. \<not> coordinator_event ev \<Longrightarrow> P ev"
  shows "emits P (transcribe_audio E af s e)"
  unfolding transcribe_audio_def transcribe_audio_body_def announce_def whisper_pass_def
    load_and_transcribe_def save_and_check_language_def align_pass_def Let_def
  by (intro emits_intros assms) (simp_all add: coordinator_event_def)

lemma emits_transcribe_chunks:
  assumes "\<And>ev. \<not> coordinator_event ev \<Longrightarrow> P ev"
  shows "emits P (transcribe_chunks E af chunks acc)"
proof (induction chunks arbitrary: acc)
  case Nil
  show ?case by (simp add: emits_returnM)
next
  case (Cons c chunks)
  obtain s e where c: "c = (s, e)" by (cases c)
  show ?case unfolding c transcribe_chunks.simps
    by (intro emits_bindM emits_transcribe_audio assms Cons.IH)
qed

section \<open>The handler and the language check\<close>

lemma announce_result:
  "announce E s e w = (Inr (inference_config (hardware E)), snd (announce E s e w))"
  by (simp add: announce_def bindM_def emit_def returnM_def Let_def)

lemma never_mismatch_bindM:
  "never_mismatch m \<Longrightarrow> (\<And>x. never_mismatch (f x)) \<Longrightarrow> never_mismatch (bindM m f)"
  unfolding never_mismatch_def bindM_def
  by (auto split: prod.splits sum.splits) (metis fst_conv)+

lemma never_mismatch_external: "never_mismatch (external E ev out)"
  by (simp add: never_mismatch_def external_def split: sum.splits)

lemma never_mismatch_rprint_text: "never_mismatch (rprint_text E msg)"
  by (simp add: never_mismatch_def rprint_text_def split: option.splits)

lemma never_mismatch_if:
  "never_mismatch a \<Longrightarrow> never_mismatch b \<Longrightarrow> never_mismatch (if c then a else b)"
  by simp

lemma never_mismatch_emit: "never_mismatch (emit ev)"
  by (simp add: never_mismatch_def emit_def)

lemma never_mismatch_path_exists: "never_mismatch (path_exists p)"
  by (simp add: never_mismatch_def path_exists_def)

lemma never_mismatch_returnM: "never_mismatch (returnM x)"
  by (simp add: never_mismatch_def returnM_def)

lemma never_mismatch_case_prod:
  "(\<And>a b. never_mismatch (f a b)) \<Longrightarrow> never_mismatch (case_prod f x)"
  by (cases x) simp

lemmas never_mismatch_intros = never_mismatch_bindM never_mismatch_external never_mismatch_emit
  never_mismatch_path_exists never_mismatch_returnM never_mismatch_case_prod
  never_mismatch_rprint_text never_mismatch_if

lemma never_mismatch_whisper_pass: "never_mismatch (whisper_pass E cfg af s e)"
  unfolding whisper_pass_def load_and_transcribe_def Let_def by (intro never_mismatch_intros)

lemma never_mismatch_align_pass: "never_mismatch (align_pass E cfg raw au)"
  unfolding align_pass_def by (intro never_mismatch_intros)

text \<open>What the handler of lines 111-113 does to the outcome.\<close>

lemma try_log_returns: "(fst (try_log E m w) = Inr x) = (fst (m w) = Inr x)"
  by (simp add: try_log_def split: prod.splits sum.splits)

lemma try_log_raises: "isl (fst (try_log E m w)) = isl (fst (m w))"
  by (simp add: try_log_def split: prod.splits sum.splits)

lemma try_log_mismatch:
  "(fst (try_log E m w) = Inl LanguageMismatch) = (fst (m w) = Inl LanguageMismatch)"
  by (auto simp: try_log_def print_error_def emit_def rprint_text_def
      split: prod.splits sum.splits option.splits if_splits)

lemma try_log_passes:
  "fst (m w) = Inl err \<Longrightarrow> \<not> caught err \<or> err = LanguageMismatch \<or> markup_error E (MsgError err) = None
     \<Longrightarrow> fst (try_log E m w) = Inl err"
  by (auto simp: try_log_def print_error_def emit_def rprint_text_def
      split: prod.splits sum.splits option.splits if_splits)

lemma transcribe_audio_unfold:
  "transcribe_audio E af s e w =
     try_log E (transcribe_audio_body E (inference_config (hardware E)) af s e)
       (snd (announce E s e w))"
  unfolding transcribe_audio_def bindM_def
  by (subst announce_result) simp

lemma transcribe_audio_mismatch:
  "(fst (transcribe_audio E af s e w) = Inl LanguageMismatch) =
     (fst (transcribe_audio_body E (inference_config (hardware E)) af s e (snd (announce E s e w)))
        = Inl LanguageMismatch)"
  by (simp add: transcribe_audio_unfold try_log_mismatch)

lemma mismatch_iff:
  "fst (transcribe_audio E af s e w) = Inl LanguageMismatch \<longleftrightarrow>
     whisper_language E \<noteq> ''zh'' \<and>
     (\<exists>raw au w2. whisper_pass E (inference_config (hardware E)) af s e (snd (announce E s e w))
          = (Inr (raw, au), w2) \<and>
        language raw = ''zh'' \<and> save_language_out E ''zh'' w2 = Inr ())"
proof -
  define cfg where "cfg = inference_config (hardware E)"
  define w1 where "w1 = snd (announce E s e w)"
  obtain r w2 where wp: "whisper_pass E cfg af s e w1 = (r, w2)"
    by (cases "whisper_pass E cfg af s e w1")
  have nm: "r \<noteq> Inl LanguageMismatch"
    using never_mismatch_whisper_pass [of E cfg af s e] wp
    by (metis fst_conv never_mismatch_def)
  show ?thesis
  proof (cases r)
    case (Inl err)
    with wp nm show ?thesis
      unfolding transcribe_audio_mismatch cfg_def [symmetric] w1_def [symmetric]
      by (simp add: transcribe_audio_body_def bindM_def)
  next
    case (Inr x)
    obtain raw au where x: "x = (raw, au)" by (cases x)
    have "never_mismatch (bindM (align_pass E cfg raw au)
        (\<lambda>aligned. returnM (adjust_timestamps s aligned)))"
      by (intro never_mismatch_intros never_mismatch_align_pass)
    then have al: "\<And>w3. fst (bindM (align_pass E cfg raw au)
        (\<lambda>aligned. returnM (adjust_timestamps s aligned)) w3) \<noteq> Inl LanguageMismatch"
      by (simp add: never_mismatch_def)
    from wp Inr x al show ?thesis
      unfolding transcribe_audio_mismatch cfg_def [symmetric] w1_def [symmetric]
      by (auto simp add: transcribe_audio_body_def bindM_def save_and_check_language_def
          external_def raiseM_def returnM_def split: sum.splits)
  qed
qed

section \<open>The trace of one chunk invocation\<close>

lemma try_log_bindM:
  "try_log E (bindM m f) w = (case m w of
       (Inl err, w') \<Rightarrow> try_log E (raiseM err) w'
     | (Inr x, w') \<Rightarrow> try_log E (f x) w')"
  by (simp add: try_log_def bindM_def raiseM_def split: prod.splits sum.splits)

lemma try_log_raiseM_trace:
  "trace (snd (try_log E (raiseM err) w)) =
     trace w @ (if caught err then [Rprint (MsgError err)] else [])"
  using try_log_trace [of E "raiseM err" w] by (simp add: raiseM_def)

lemma whisper_pass_split:
  "whisper_pass E cfg af s e w = (case load_and_transcribe E cfg af s e w of
       (Inl err, w') \<Rightarrow> (Inl err, w')
     | (Inr x, w') \<Rightarrow> (Inr x, w'\<lparr>trace := trace w' @ [DelModel, EmptyCache]\<rparr>))"
  by (simp add: whisper_pass_def bindM_def emit_def returnM_def split: prod.splits sum.splits)

lemma announce_probes_once:
  "length (filter ((=) CudaIsAvailable) (events_since w (snd (announce E s e w)))) = 1"
  by (simp add: announce_def bindM_def emit_def returnM_def Let_def events_since_def)

lemma announce_trace:
  "\<exists>evs. trace (snd (announce E s e w)) = trace w @ evs \<and> list_all announce_event evs \<and>
     length (filter ((=) CudaIsAvailable) evs) = 1"
proof -
  obtain r w1 where a: "announce E s e w = (r, w1)" by (cases "announce E s e w")
  from emitsD [OF emits_announce a] obtain evs where
    evs: "trace w1 = trace w @ evs" "list_all announce_event evs" by blast
  from announce_probes_once [of w E s e] a evs
  have "length (filter ((=) CudaIsAvailable) evs) = 1"
    by (simp add: events_since_def)
  with a evs show ?thesis by auto
qed

lemma save_and_check_language_trace:
  "trace (snd (save_and_check_language E raw w)) = trace w @ [SaveLanguage (language raw)]"
  by (simp add: save_and_check_language_def bindM_def external_def raiseM_def returnM_def
      split: sum.splits)

text \<open>What follows a successful transcription: lines 88-110 inside the try.\<close>

lemma after_transcription_trace:
  "\<exists>evs. trace (snd (try_log E (bindM (save_and_check_language E raw) (\<lambda>_.
        bindM (align_pass E cfg raw au) (\<lambda>aligned. returnM (adjust_timestamps s aligned)))) w))
      = trace w @ SaveLanguage (language raw) # evs \<and> list_all align_event evs"
proof -
  define rest :: "aligned_result run" where
    "rest = bindM (align_pass E cfg raw au) (\<lambda>aligned. returnM (adjust_timestamps s aligned))"
  obtain r1 w1 where sc: "save_and_check_language E raw w = (r1, w1)"
    by (cases "save_and_check_language E raw w")
  with save_and_check_language_trace [of E raw w]
  have w1: "trace w1 = trace w @ [SaveLanguage (language raw)]" by simp
  define after :: "aligned_result run" where
    "after = (case r1 of Inl err \<Rightarrow> try_log E (raiseM err) | Inr u \<Rightarrow> try_log E rest)"
  have em: "emits align_event after"
    unfolding after_def rest_def
    by (cases r1; simp; intro emits_intros emits_align_pass) (simp_all add: align_event_def)
  have step: "try_log E (bindM (save_and_check_language E raw) (\<lambda>_. rest)) w = after w1"
    unfolding after_def by (subst try_log_bindM) (simp add: sc split: sum.splits)
  obtain r2 w2 where r: "after w1 = (r2, w2)" by (cases "after w1")
  from emitsD [OF em r] obtain evs where "trace w2 = trace w1 @ evs" "list_all align_event evs"
    by blast
  with step r w1 show ?thesis unfolding rest_def by simp
qed

lemma transcribe_audio_trace:
  assumes lt: "load_and_transcribe E (inference_config (hardware E)) af s e
      (snd (announce E s e w)) = (rt, w2)"
  shows "\<exists>evsA evsT evsR.
      events_since w (snd (transcribe_audio E af s e w)) = evsA @ evsT @ evsR \<and>
      list_all announce_event evsA \<and> length (filter ((=) CudaIsAvailable) evsA) = 1 \<and>
      list_all transcription_event evsT \<and>
      (case rt of
         Inl err \<Rightarrow> evsR = (if caught err then [Rprint (MsgError err)] else []) \<and>
           isl (fst (transcribe_audio E af s e w))
       | Inr x \<Rightarrow> (\<exists>evsL. evsR = DelModel # EmptyCache # SaveLanguage (language (fst x)) # evsL \<and>
            list_all align_event evsL))"
proof -
  define cfg where "cfg = inference_config (hardware E)"
  define w1 where "w1 = snd (announce E s e w)"
  from announce_trace [of E s e w] obtain evsA where
    A: "trace w1 = trace w @ evsA" "list_all announce_event evsA"
       "length (filter ((=) CudaIsAvailable) evsA) = 1"
    unfolding w1_def by blast
  from lt have lt': "load_and_transcribe E cfg af s e w1 = (rt, w2)"
    by (simp add: cfg_def w1_def)
  from emitsD [OF emits_load_and_transcribe lt'] obtain evsT where
    T: "trace w2 = trace w1 @ evsT" "list_all transcription_event evsT" by blast
  have ta: "transcribe_audio E af s e w = try_log E (transcribe_audio_body E cfg af s e) w1"
    by (simp add: transcribe_audio_unfold cfg_def w1_def)
  show ?thesis
  proof (cases rt)
    case (Inl err)
    with lt' have eq: "transcribe_audio E af s e w = try_log E (raiseM err) w2"
      unfolding ta transcribe_audio_body_def
      by (subst try_log_bindM) (simp add: whisper_pass_split)
    have "isl (fst (transcribe_audio E af s e w))"
      unfolding eq try_log_raises by (simp add: raiseM_def)
    moreover have "trace (snd (try_log E (raiseM err) w2)) =
        trace w @ (evsA @ evsT @ (if caught err then [Rprint (MsgError err)] else []))"
      using A T try_log_raiseM_trace [of E err w2] by simp
    then have "events_since w (snd (transcribe_audio E af s e w)) =
        evsA @ evsT @ (if caught err then [Rprint (MsgError err)] else [])"
      unfolding eq by (rule events_since_append)
    ultimately show ?thesis using A T Inl by auto
  next
    case (Inr x)
    obtain raw au where x: "x = (raw, au)" by (cases x)
    define w3 where "w3 = w2\<lparr>trace := trace w2 @ [DelModel, EmptyCache]\<rparr>"
    from lt' Inr x have "transcribe_audio E af s e w =
        try_log E (bindM (save_and_check_language E raw) (\<lambda>_.
          bindM (align_pass E cfg raw au) (\<lambda>aligned. returnM (adjust_timestamps s aligned)))) w3"
      unfolding ta transcribe_audio_body_def w3_def
      by (subst try_log_bindM) (simp add: whisper_pass_split)
    with after_transcription_trace [of E raw cfg au s w3] obtain evsL where
      L: "trace (snd (transcribe_audio E af s e w)) = trace w3 @ SaveLanguage (language raw) # evsL"
         "list_all align_event evsL"
      by auto
    from L A T have "events_since w (snd (transcribe_audio E af s e w)) =
        evsA @ evsT @ (DelModel # EmptyCache # SaveLanguage (language raw) # evsL)"
      by (simp add: events_since_def w3_def)
    with A T L Inr x show ?thesis by auto
  qed
qed

lemma emits_file_written: "emits P (file_written p)"
  by (simp add: emits_def file_written_def)

lemma emits_separate_and_split: "emits separation_event (separate_and_split E v)"
  unfolding separate_and_split_def Let_def
  by (intro emits_intros) (simp_all add: separation_event_def)

lemma emits_combine_and_save: "emits saving_event (combine_and_save E rs)"
  unfolding combine_and_save_def save_results_def Let_def
  by (intro emits_intros emits_file_written) (simp_all add: saving_event_def)

lemma filter_none: "list_all P xs \<Longrightarrow> (\<And>x. P x \<Longrightarrow> \<not> Q x) \<Longrightarrow> filter Q xs = []"
  by (induction xs) auto

lemma load_and_transcribe_success:
  assumes "fst (transcribe_audio E af s e w) = Inr r"
  shows "\<exists>x w2. load_and_transcribe E (inference_config (hardware E)) af s e
      (snd (announce E s e w)) = (Inr x, w2)"
proof -
  obtain rt w2 where lt: "load_and_transcribe E (inference_config (hardware E)) af s e
      (snd (announce E s e w)) = (rt, w2)"
    by (cases "load_and_transcribe E (inference_config (hardware E)) af s e (snd (announce E s e w))")
  from transcribe_audio_trace [OF lt] assms show ?thesis
    using lt by (cases rt) auto
qed

lemma announce_event_facts:
  "announce_event ev \<Longrightarrow> \<not> is_save_language ev"
  by (cases ev) (simp_all add: announce_event_def is_save_language_def)

lemma transcription_event_facts:
  "transcription_event ev \<Longrightarrow> ev \<noteq> CudaIsAvailable \<and> \<not> is_save_language ev \<and>
     ev \<noteq> DelModel \<and> ev \<noteq> EmptyCache \<and> ev \<noteq> DelModelA"
  by (cases ev) (simp_all add: transcription_event_def is_save_language_def)

lemma announce_event_not_release:
  "announce_event ev \<Longrightarrow> ev \<noteq> DelModel \<and> ev \<noteq> EmptyCache \<and> ev \<noteq> DelModelA"
  by (cases ev) (simp_all add: announce_event_def)

lemma align_event_facts:
  "align_event ev \<Longrightarrow> ev \<noteq> CudaIsAvailable \<and> \<not> is_save_language ev"
  by (cases ev) (simp_all add: align_event_def is_save_language_def)

text \<open>Every chunk invocation probes the accelerator once.\<close>

lemma chunk_probes_once:
  "length (filter ((=) CudaIsAvailable) (events_since w (snd (transcribe_audio E af s e w)))) = 1"
proof -
  obtain rt w2 where lt: "load_and_transcribe E (inference_config (hardware E)) af s e
      (snd (announce E s e w)) = (rt, w2)"
    by (cases "load_and_transcribe E (inference_config (hardware E)) af s e (snd (announce E s e w))")
  from transcribe_audio_trace [OF lt] obtain evsA evsT evsR where
    ev: "events_since w (snd (transcribe_audio E af s e w)) = evsA @ evsT @ evsR"
    and A: "length (filter ((=) CudaIsAvailable) evsA) = 1"
    and T: "list_all transcription_event evsT"
    and R: "case rt of
         Inl err \<Rightarrow> evsR = (if caught err then [Rprint (MsgError err)] else []) \<and>
           isl (fst (transcribe_audio E af s e w))
       | Inr x \<Rightarrow> (\<exists>evsL. evsR = DelModel # EmptyCache # SaveLanguage (language (fst x)) # evsL \<and>
            list_all align_event evsL)"
    by blast
  have QT: "filter ((=) CudaIsAvailable) evsT = []"
    using T by (rule filter_none) (use transcription_event_facts in blast)
  have QR: "filter ((=) CudaIsAvailable) evsR = []"
  proof (cases rt)
    case (Inl err)
    with R show ?thesis by simp
  next
    case (Inr x)
    with R obtain evsL where L: "evsR = DelModel # EmptyCache # SaveLanguage (language (fst x)) # evsL"
      "list_all align_event evsL" by auto
    have "filter ((=) CudaIsAvailable) evsL = []"
      using L(2) by (rule filter_none) (use align_event_facts in blast)
    with L show ?thesis by simp
  qed
  from ev A QT QR show ?thesis by simp
qed

text \<open>A chunk invocation saves the language when, and only when, the transcription returned.\<close>

lemma chunk_saves_language:
  assumes lt: "load_and_transcribe E (inference_config (hardware E)) af s e
      (snd (announce E s e w)) = (rt, w2)"
  shows "filter is_save_language (events_since w (snd (transcribe_audio E af s e w))) =
      (case rt of Inl err \<Rightarrow> [] | Inr x \<Rightarrow> [SaveLanguage (language (fst x))])"
proof -
  from transcribe_audio_trace [OF lt] obtain evsA evsT evsR where
    ev: "events_since w (snd (transcribe_audio E af s e w)) = evsA @ evsT @ evsR"
    and A: "list_all announce_event evsA"
    and T: "list_all transcription_event evsT"
    and R: "case rt of
         Inl err \<Rightarrow> evsR = (if caught err then [Rprint (MsgError err)] else []) \<and>
           isl (fst (transcribe_audio E af s e w))
       | Inr x \<Rightarrow> (\<exists>evsL. evsR = DelModel # EmptyCache # SaveLanguage (language (fst x)) # evsL \<and>
            list_all align_event evsL)"
    by blast
  have QA: "filter is_save_language evsA = []"
    using A by (rule filter_none) (use announce_event_facts in blast)
  have QT: "filter is_save_language evsT = []"
    using T by (rule filter_none) (use transcription_event_facts in blast)
  show ?thesis
  proof (cases rt)
    case (Inl err)
    with R ev QA QT show ?thesis by (simp add: is_save_language_def)
  next
    case (Inr x)
    with R obtain evsL where L: "evsR = DelModel # EmptyCache # SaveLanguage (language (fst x)) # evsL"
      "list_all align_event evsL" by auto
    have "filter is_save_language evsL = []"
      using L(2) by (rule filter_none) (use align_event_facts in blast)
    with L Inr ev QA QT show ?thesis by (simp add: is_save_language_def)
  qed
qed

text \<open>Release of the transcription model.\<close>

lemma chunk_release:
  assumes lt: "load_and_transcribe E (inference_config (hardware E)) af s e
      (snd (announce E s e w)) = (rt, w2)"
  shows "case rt of
      Inl err \<Rightarrow> isl (fst (transcribe_audio E af s e w)) \<and>
        DelModel \<notin> set (events_since w (snd (transcribe_audio E af s e w))) \<and>
        EmptyCache \<notin> set (events_since w (snd (transcribe_audio E af s e w))) \<and>
        DelModelA \<notin> set (events_since w (snd (transcribe_audio E af s e w)))
    | Inr x \<Rightarrow> model_released (events_since w (snd (transcribe_audio E af s e w)))"
proof -
  from transcribe_audio_trace [OF lt] obtain evsA evsT evsR where
    ev: "events_since w (snd (transcribe_audio E af s e w)) = evsA @ evsT @ evsR"
    and A: "list_all announce_event evsA"
    and T: "list_all transcription_event evsT"
    and R: "case rt of
         Inl err \<Rightarrow> evsR = (if caught err then [Rprint (MsgError err)] else []) \<and>
           isl (fst (transcribe_audio E af s e w))
       | Inr x \<Rightarrow> (\<exists>evsL. evsR = DelModel # EmptyCache # SaveLanguage (language (fst x)) # evsL \<and>
            list_all align_event evsL)"
    by blast
  have pre: "\<And>ev. ev \<in> set (evsA @ evsT) \<Longrightarrow> ev \<noteq> DelModel \<and> ev \<noteq> EmptyCache \<and> ev \<noteq> DelModelA"
    using A T announce_event_not_release transcription_event_facts
    by (auto simp: list_all_iff)
  show ?thesis
  proof (cases rt)
    case (Inl err)
    with R ev pre show ?thesis by auto
  next
    case (Inr x)
    with R obtain evsL where L: "evsR = DelModel # EmptyCache # SaveLanguage (language (fst x)) # evsL"
      by auto
    have "dropWhile (\<lambda>ev. ev \<noteq> DelModel) ((evsA @ evsT) @ evsR) = dropWhile (\<lambda>ev. ev \<noteq> DelModel) evsR"
      by (rule dropWhile_append2) (use pre in blast)
    with L Inr ev show ?thesis by (simp add: model_released_def)
  qed
qed

section \<open>The chunk loop and the run\<close>

lemma transcribe_chunks_append:
  "transcribe_chunks E af (pre @ rest) acc =
     bindM (transcribe_chunks E af pre acc) (\<lambda>rs. transcribe_chunks E af rest rs)"
proof (induction pre arbitrary: acc)
  case Nil
  show ?case by (simp add: bindM_def returnM_def fun_eq_iff)
next
  case (Cons c pre)
  obtain s e where c: "c = (s, e)" by (cases c)
  show ?case
    by (simp add: c Cons.IH bindM_def fun_eq_iff split: prod.splits sum.splits)
qed

lemma trace_extends:
  assumes "emits (\<lambda>ev. True) m" and "m w = (r, w')"
  shows "trace w' = trace w @ events_since w w'"
  using emitsD [OF assms] by (auto simp: events_since_def)

lemma events_since_trans:
  assumes "trace w1 = trace w @ events_since w w1" and "trace w2 = trace w1 @ events_since w1 w2"
  shows "events_since w w2 = events_since w w1 @ events_since w1 w2"
    and "trace w2 = trace w @ events_since w w2"
proof -
  from assms have "trace w2 = trace w @ (events_since w w1 @ events_since w1 w2)"
    by simp
  then show "events_since w w2 = events_since w w1 @ events_since w1 w2"
    by (rule events_since_append)
  with assms show "trace w2 = trace w @ events_since w w2" by simp
qed

lemma transcribe_audio_extends:
  "transcribe_audio E af s e w = (r, w') \<Longrightarrow> trace w' = trace w @ events_since w w'"
  by (rule trace_extends [OF emits_transcribe_audio]) simp_all

lemma transcribe_chunks_extends:
  "transcribe_chunks E af chunks acc w = (r, w') \<Longrightarrow> trace w' = trace w @ events_since w w'"
  by (rule trace_extends [OF emits_transcribe_chunks]) simp_all

lemma chunks_count:
  assumes chunk: "\<And>s e w r w'. transcribe_audio E af s e w = (Inr r, w') \<Longrightarrow>
      length (filter Q (events_since w w')) = 1"
    and run: "transcribe_chunks E af chunks acc w = (Inr rs, w')"
  shows "length (filter Q (events_since w w')) = length chunks"
  using run
proof (induction chunks arbitrary: acc w)
  case Nil
  then show ?case by (simp add: returnM_def events_since_def)
next
  case (Cons c chunks)
  obtain s e where c: "c = (s, e)" by (cases c)
  obtain r1 w1 where t: "transcribe_audio E af s e w = (r1, w1)"
    by (cases "transcribe_audio E af s e w")
  from Cons.prems c t obtain r where r1: "r1 = Inr r"
    and rest: "transcribe_chunks E af chunks (acc @ [r]) w1 = (Inr rs, w')"
    by (cases r1) (simp_all add: bindM_def)
  from chunk t r1 have one: "length (filter Q (events_since w w1)) = 1" by simp
  from Cons.IH [OF rest] have more: "length (filter Q (events_since w1 w')) = length chunks" .
  from events_since_trans(1) [OF transcribe_audio_extends [OF t] transcribe_chunks_extends [OF rest]]
    one more show ?case by simp
qed

lemma transcribe_skip:
  "final_artifact \<in> files w \<Longrightarrow>
     transcribe E v w =
       (Inr (), w\<lparr>trace := trace w @ [PathExists final_artifact, Rprint MsgResultsExist]\<rparr>)"
  by (simp add: transcribe_def bindM_def path_exists_def emit_def)

lemma transcribe_run:
  "final_artifact \<notin> files w \<Longrightarrow>
     transcribe E v w =
       bindM (separate_and_split E v) (\<lambda>(af, chunks).
         bindM (transcribe_chunks E af chunks []) (combine_and_save E))
       (w\<lparr>trace := trace w @ [PathExists final_artifact]\<rparr>)"
  by (simp add: transcribe_def bindM_def path_exists_def cong: prod.case_cong)

lemma combine_and_save_final:
  "combine_and_save E rs w = (Inr u, w') \<Longrightarrow> final_artifact \<in> files w'"
  by (auto simp: combine_and_save_def save_results_def bindM_def external_def file_written_def
      Let_def split: sum.splits prod.splits)

lemma transcribe_success_final:
  assumes "transcribe E v w = (Inr u, w')"
  shows "final_artifact \<in> files w'"
proof (cases "final_artifact \<in> files w")
  case True
  with assms show ?thesis by (auto simp: transcribe_skip)
next
  case False
  from assms show ?thesis
    unfolding transcribe_run [OF False]
    by (auto simp: bindM_def combine_and_save_final split: sum.splits prod.splits)
qed


text \<open>The stages of a run that succeeds.\<close>

lemma run_stages:
  assumes nf: "final_artifact \<notin> files w"
    and run: "transcribe E v w = (Inr u, w')"
  obtains af chunks w1 rs w2 where
    "separate_and_split E v (w\<lparr>trace := trace w @ [PathExists final_artifact]\<rparr>)
       = (Inr (af, chunks), w1)"
    "transcribe_chunks E af chunks [] w1 = (Inr rs, w2)"
    "combine_and_save E rs w2 = (Inr u, w')"
proof -
  define w0 where "w0 = w\<lparr>trace := trace w @ [PathExists final_artifact]\<rparr>"
  obtain r1 w1 where s: "separate_and_split E v w0 = (r1, w1)"
    by (cases "separate_and_split E v w0")
  from run s obtain af chunks where r1: "r1 = Inr (af, chunks)"
    unfolding transcribe_run [OF nf] w0_def [symmetric]
    by (cases r1) (auto simp: bindM_def)
  obtain r2 w2 where c: "transcribe_chunks E af chunks [] w1 = (r2, w2)"
    by (cases "transcribe_chunks E af chunks [] w1")
  from run s r1 c obtain rs where r2: "r2 = Inr rs"
    unfolding transcribe_run [OF nf] w0_def [symmetric]
    by (cases r2) (auto simp: bindM_def)
  from run s r1 c r2 have "combine_and_save E rs w2 = (Inr u, w')"
    unfolding transcribe_run [OF nf] w0_def [symmetric]
    by (simp add: bindM_def)
  with s r1 c r2 that show ?thesis unfolding w0_def by blast
qed

lemma run_count:
  assumes sep: "\<And>ev. separation_event ev \<Longrightarrow> \<not> Q ev"
    and sav: "\<And>ev. saving_event ev \<Longrightarrow> \<not> Q ev"
    and chunk: "\<And>af s e w r w'. transcribe_audio E af s e w = (Inr r, w') \<Longrightarrow>
      length (filter Q (events_since w w')) = 1"
    and nf: "final_artifact \<notin> files w"
    and run: "transcribe E v w = (Inr u, w')"
    and split: "fst (separate_and_split E v (w\<lparr>trace := trace w @ [PathExists final_artifact]\<rparr>))
       = Inr (af, chunks)"
  shows "length (filter Q (events_since w w')) = length chunks"
proof -
  define w0 where "w0 = w\<lparr>trace := trace w @ [PathExists final_artifact]\<rparr>"
  from run_stages [OF nf run] obtain af' chunks' w1 rs w2 where
    s': "separate_and_split E v w0 = (Inr (af', chunks'), w1)"
    and c': "transcribe_chunks E af' chunks' [] w1 = (Inr rs, w2)"
    and f: "combine_and_save E rs w2 = (Inr u, w')"
    unfolding w0_def by blast
  from s' split have "af' = af" "chunks' = chunks"
    by (simp_all add: w0_def)
  with s' c' have s: "separate_and_split E v w0 = (Inr (af, chunks), w1)"
    and c: "transcribe_chunks E af chunks [] w1 = (Inr rs, w2)"
    by simp_all
  from emitsD [OF emits_separate_and_split s] obtain evsS where
    S: "trace w1 = trace w0 @ evsS" "list_all separation_event evsS" by blast
  from emitsD [OF emits_combine_and_save f] obtain evsF where
    F: "trace w' = trace w2 @ evsF" "list_all saving_event evsF" by blast
  from transcribe_chunks_extends [OF c] have C: "trace w2 = trace w1 @ events_since w1 w2" .
  have "trace w' = trace w @ (PathExists final_artifact # evsS @ events_since w1 w2 @ evsF)"
    using S F C by (simp add: w0_def)
  then have ev: "events_since w w' = PathExists final_artifact # evsS @ events_since w1 w2 @ evsF"
    by (rule events_since_append)
  have "filter Q evsS = []" using S(2) sep by (rule filter_none)
  moreover have "filter Q evsF = []" using F(2) sav by (rule filter_none)
  moreover have "\<not> Q (PathExists final_artifact)"
    by (rule sep) (simp add: separation_event_def)
  moreover have "length (filter Q (events_since w1 w2)) = length chunks"
    using chunk c by (rule chunks_count)
  ultimately show ?thesis using ev by simp
qed

section \<open>Evaluation\<close>

lemma demo_config:
  "inference_config demo_hardware = \<lparr>device = Cuda, batch_size = 16, compute_type = Float16\<rparr>"
  by (simp add: inference_config_def demo_hardware_def gpu_mem_def)

lemma demo_gpu_mem: "gpu_mem demo_hardware = 24"
  by (simp add: demo_hardware_def gpu_mem_def)

lemma demo_env_simps:
  "whisper_language (demo_env c t) = c"
  "model_dir (demo_env c t) = ''_model_cache''"
  "audio_dir (demo_env c t) = ''output/audio''"
  "raw_audio_file (demo_env c t) = ''raw_full_audio.wav''"
  "background_audio_file (demo_env c t) = ''background.mp3''"
  "vocal_audio_file (demo_env c t) = ''original_vocal.mp3''"
  "hardware (demo_env c t) = demo_hardware"
  "fs_effect (demo_env c t) = (\<lambda>ev w. files w)"
  "markup_error (demo_env c t) = (\<lambda>msg. None)"
  "load_model_out (demo_env c t) = (\<lambda>name dev ct lang w. Inr 10)"
  "temp_file_out (demo_env c t) = (\<lambda>w. Inr ''/tmp/tmpchunk.mp3'')"
  "ffmpeg_out (demo_env c t) = (\<lambda>file start duration out w. Inr ())"
  "librosa_load_out (demo_env c t) = (\<lambda>file w. Inr 20)"
  "unlink_out (demo_env c t) = (\<lambda>file w. Inr ())"
  "model_transcribe_out (demo_env c t) = (\<lambda>model audio batch. t)"
  "save_language_out (demo_env c t) = (\<lambda>lang w. Inr ())"
  "load_align_model_out (demo_env c t) = (\<lambda>lang dev w. Inr (30, 40))"
  "align_out (demo_env c t) = (\<lambda>segs model_a metadata audio dev w. Inr demo_aligned)"
  "convert_video_to_audio_out (demo_env c t) = (\<lambda>video w. Inr ''output/audio/raw_full_audio.wav'')"
  "demucs_main_out (demo_env c t) = (\<lambda>raw dir background vocal w. Inr ())"
  "split_audio_out (demo_env c t) = (\<lambda>file w. Inr [(Finite 0, Finite 50), (Finite 50, Finite 100)])"
  "process_transcription_out (demo_env c t) = (\<lambda>segs w. Inr 50)"
  "save_results_out (demo_env c t) = (\<lambda>df w. Inr ())"
  by (simp_all add: demo_env_def)

lemmas run_defs = transcribe_def separate_and_split_def combine_and_save_def save_results_def
  file_written_def transcribe_audio_def transcribe_audio_body_def announce_def whisper_pass_def
  load_and_transcribe_def save_and_check_language_def align_pass_def chunk_transcription_def
  bindM_def returnM_def raiseM_def emit_def rprint_text_def print_error_def path_exists_def
  external_def try_log_def
  os_path_join_def background_path_def vocal_path_def raw_path_def final_artifact_def Let_def

lemmas demo_defs = demo_env_simps demo_world_def demo_config demo_gpu_mem demo_raw_def
  two_languages_def english_then_chinese_def out_of_memory_def is_save_language_def

lemma chunk_transcription_split:
  "chunk_transcription E af s e w =
     (case load_and_transcribe E (inference_config (hardware E)) af s e (snd (announce E s e w)) of
        (Inl err, w') \<Rightarrow> (Inl err, w')
      | (Inr x, w') \<Rightarrow> (Inr x, w'\<lparr>trace := trace w' @ [DelModel, EmptyCache]\<rparr>))"
  by (simp add: chunk_transcription_def whisper_pass_split)

lemma chunk_transcription_cases:
  obtains (raised) err w2 where
      "load_and_transcribe E (inference_config (hardware E)) af s e (snd (announce E s e w))
         = (Inl err, w2)"
      "fst (chunk_transcription E af s e w) = Inl err"
  | (returned) x w2 where
      "load_and_transcribe E (inference_config (hardware E)) af s e (snd (announce E s e w))
         = (Inr x, w2)"
      "fst (chunk_transcription E af s e w) = Inr x"
proof -
  obtain rt w2 where lt: "load_and_transcribe E (inference_config (hardware E)) af s e
      (snd (announce E s e w)) = (rt, w2)"
    by (cases "load_and_transcribe E (inference_config (hardware E)) af s e (snd (announce E s e w))")
  show ?thesis
  proof (cases rt)
    case (Inl err)
    with lt raised show ?thesis by (simp add: chunk_transcription_split)
  next
    case (Inr x)
    with lt returned show ?thesis by (simp add: chunk_transcription_split)
  qed
qed


lemma try_log_success: "try_log E m w = (Inr x, w') \<Longrightarrow> m w = (Inr x, w')"
  by (auto simp: try_log_def split: prod.splits sum.splits if_splits)

lemma emits_length:
  assumes "emits P m" and "m w = (r, w')"
  shows "length (trace w) \<le> length (trace w')"
  using emitsD [OF assms] by auto

lemma emits_whisper_pass: "emits (\<lambda>ev. True) (whisper_pass E cfg af s e)"
  unfolding whisper_pass_def load_and_transcribe_def Let_def
  by (intro emits_intros) simp_all

lemma emits_save_and_check_language: "emits (\<lambda>ev. True) (save_and_check_language E raw)"
  unfolding save_and_check_language_def
  by (intro emits_intros) simp_all

lemma align_pass_success:
  "align_pass E cfg raw au w = (Inr aligned, w') \<Longrightarrow>
     \<exists>evs. trace w' = trace w @ evs @ [EmptyCache, DelModelA]"
  by (auto simp: align_pass_def bindM_def external_def emit_def returnM_def
      split: sum.splits prod.splits)

text \<open>A chunk invocation that returns has deleted the alignment model.\<close>

lemma chunk_success_deletes_alignment_model:
  assumes ok: "fst (transcribe_audio E af s e w) = Inr r"
  shows "DelModelA \<in> set (events_since w (snd (transcribe_audio E af s e w)))"
proof -
  define cfg where "cfg = inference_config (hardware E)"
  define w1 where "w1 = snd (announce E s e w)"
  obtain w' where ta: "transcribe_audio E af s e w = (Inr r, w')"
    using ok by (cases "transcribe_audio E af s e w") simp
  then have "try_log E (transcribe_audio_body E cfg af s e) w1 = (Inr r, w')"
    by (simp add: transcribe_audio_unfold cfg_def w1_def)
  then have body: "transcribe_audio_body E cfg af s e w1 = (Inr r, w')"
    by (rule try_log_success)
  then obtain raw au w3 u w4 aligned where
    wp: "whisper_pass E cfg af s e w1 = (Inr (raw, au), w3)"
    and sc: "save_and_check_language E raw w3 = (Inr u, w4)"
    and al: "align_pass E cfg raw au w4 = (Inr aligned, w')"
    by (auto simp: transcribe_audio_body_def bindM_def returnM_def split: sum.splits prod.splits)
  have "announce E s e w = (Inr cfg, w1)"
    unfolding cfg_def w1_def by (rule announce_result)
  from emits_length [OF emits_announce this] emits_length [OF emits_whisper_pass wp]
    emits_length [OF emits_save_and_check_language sc]
  have len: "length (trace w) \<le> length (trace w4)" by simp
  from align_pass_success [OF al] obtain evs where
    "trace w' = trace w4 @ evs @ [EmptyCache, DelModelA]" by blast
  with len have "events_since w w' =
      drop (length (trace w)) (trace w4) @ evs @ [EmptyCache, DelModelA]"
    by (simp add: events_since_def)
  with ta show ?thesis by simp
qed

section \<open>The language check\<close>




text \<open>
  C2, as the code has it. With auto configured, the chunk invocation raises the
  language-mismatch error exactly when the transcription of the chunk returned with the
  detected language zh and saving that language returned; for every other detected
  language it does not raise it.
\<close>

theorem auto_language_mismatch:
  "whisper_language E = ''auto'' \<Longrightarrow>
     (fst (transcribe_audio E af s e w) = Inl LanguageMismatch) =
     (\<exists>raw au. fst (chunk_transcription E af s e w) = Inr (raw, au) \<and> language raw = ''zh'' \<and>
        save_language_out E ''zh'' (snd (chunk_transcription E af s e w)) = Inr ())"
proof -
  assume auto: "whisper_language E = ''auto''"
  have "\<And>raw au. (fst (chunk_transcription E af s e w) = Inr (raw, au)) =
      (chunk_transcription E af s e w = (Inr (raw, au), snd (chunk_transcription E af s e w)))"
    by (metis fst_conv prod.collapse)
  with auto show ?thesis
    unfolding mismatch_iff chunk_transcription_def by auto
qed

text \<open>Configured auto and detected French: no mismatch.\<close>

theorem auto_language_mismatch_witness:
  "whisper_language (demo_env ''auto'' (\<lambda>w. Inr (demo_raw ''fr''))) = ''auto'' \<and>
   fst (transcribe_audio (demo_env ''auto'' (\<lambda>w. Inr (demo_raw ''fr'')))
          ''output/audio/original_vocal.mp3'' (Finite 0) (Finite 50) demo_world)
     \<noteq> Inl LanguageMismatch"
proof -
  have a: "whisper_language (demo_env ''auto'' (\<lambda>w. Inr (demo_raw ''fr''))) = ''auto''"
    by (simp add: demo_env_simps)
  have t: "fst (chunk_transcription (demo_env ''auto'' (\<lambda>w. Inr (demo_raw ''fr'')))
          ''output/audio/original_vocal.mp3'' (Finite 0) (Finite 50) demo_world)
     = Inr (demo_raw ''fr'', 20)"
    by (simp add: run_defs demo_defs)
  from a auto_language_mismatch [OF a, of "''output/audio/original_vocal.mp3''" "Finite 0"
      "Finite 50" demo_world] t
  show ?thesis by (simp add: demo_raw_def)
qed

text \<open>
  C2 as stated fails: with auto configured and a chunk detected as Chinese, the chunk
  invocation raises the language-mismatch error.
\<close>

theorem auto_configured_counterexample:
  "whisper_language (demo_env ''auto'' (\<lambda>w. Inr (demo_raw ''zh''))) = ''auto'' \<and>
   fst (transcribe_audio (demo_env ''auto'' (\<lambda>w. Inr (demo_raw ''zh'')))
          ''output/audio/original_vocal.mp3'' (Finite 0) (Finite 50) demo_world)
     = Inl LanguageMismatch"
  by (simp add: run_defs demo_defs del: py_add.simps)

section \<open>Release of the models\<close>

text \<open>
  C6, as the code has it. The models are released by hand on the way to the return, and
  the handler of lines 111-113 releases nothing. When the transcription of the chunk
  returned, the invocation deletes the transcription model and then empties the cache,
  also when it fails later (saving the language, the language check, the alignment).
  When the invocation returns, the alignment model has been deleted too. When the
  transcription of the chunk raised (lines 37-82: loading the model, cutting or loading
  the audio, the transcription itself), the invocation raises and neither deletes a
  model nor empties the cache.
\<close>

theorem transcription_model_release:
  "(fst (chunk_transcription E af s e w) = Inr x \<longrightarrow>
      model_released (events_since w (snd (transcribe_audio E af s e w)))) \<and>
   (fst (transcribe_audio E af s e w) = Inr r \<longrightarrow>
      model_released (events_since w (snd (transcribe_audio E af s e w))) \<and>
      DelModelA \<in> set (events_since w (snd (transcribe_audio E af s e w)))) \<and>
   (fst (chunk_transcription E af s e w) = Inl err \<longrightarrow>
      isl (fst (transcribe_audio E af s e w)) \<and>
      DelModel \<notin> set (events_since w (snd (transcribe_audio E af s e w))) \<and>
      EmptyCache \<notin> set (events_since w (snd (transcribe_audio E af s e w))) \<and>
      DelModelA \<notin> set (events_since w (snd (transcribe_audio E af s e w))))"
proof (cases rule: chunk_transcription_cases [of E af s e w])
  case (raised err' w2)
  from chunk_release [OF raised(1)] raised(2) show ?thesis by auto
next
  case (returned x' w2)
  from chunk_release [OF returned(1)] returned(2)
    chunk_success_deletes_alignment_model [of E af s e w r]
  show ?thesis by auto
qed

text \<open>
  A chunk that is transcribed and aligned, and a chunk whose transcription runs out of
  accelerator memory.
\<close>

theorem transcription_model_release_witness:
  "fst (chunk_transcription (demo_env ''en'' (\<lambda>w. Inr (demo_raw ''en'')))
          ''output/audio/original_vocal.mp3'' (Finite 0) (Finite 50) demo_world)
     = Inr (demo_raw ''en'', 20) \<and>
   fst (transcribe_audio (demo_env ''en'' (\<lambda>w. Inr (demo_raw ''en'')))
          ''output/audio/original_vocal.mp3'' (Finite 0) (Finite 50) demo_world)
     = Inr (adjust_timestamps (Finite 0) demo_aligned) \<and>
   model_released (events_since demo_world (snd (transcribe_audio
          (demo_env ''en'' (\<lambda>w. Inr (demo_raw ''en'')))
          ''output/audio/original_vocal.mp3'' (Finite 0) (Finite 50) demo_world))) \<and>
   DelModelA \<in> set (events_since demo_world (snd (transcribe_audio
          (demo_env ''en'' (\<lambda>w. Inr (demo_raw ''en'')))
          ''output/audio/original_vocal.mp3'' (Finite 0) (Finite 50) demo_world))) \<and>
   fst (chunk_transcription (demo_env ''en'' out_of_memory)
          ''output/audio/original_vocal.mp3'' (Finite 0) (Finite 50) demo_world)
     = Inl (Raised (Exception ''CUDA out of memory'')) \<and>
   isl (fst (transcribe_audio (demo_env ''en'' out_of_memory)
          ''output/audio/original_vocal.mp3'' (Finite 0) (Finite 50) demo_world)) \<and>
   EmptyCache \<notin> set (events_since demo_world (snd (transcribe_audio
          (demo_env ''en'' out_of_memory)
          ''output/audio/original_vocal.mp3'' (Finite 0) (Finite 50) demo_world)))"
proof -
  have ok: "fst (chunk_transcription (demo_env ''en'' (\<lambda>w. Inr (demo_raw ''en'')))
          ''output/audio/original_vocal.mp3'' (Finite 0) (Finite 50) demo_world)
     = Inr (demo_raw ''en'', 20)"
    by (simp add: run_defs demo_defs)
  have ret: "fst (transcribe_audio (demo_env ''en'' (\<lambda>w. Inr (demo_raw ''en'')))
          ''output/audio/original_vocal.mp3'' (Finite 0) (Finite 50) demo_world)
     = Inr (adjust_timestamps (Finite 0) demo_aligned)"
    by (simp add: run_defs demo_defs del: py_add.simps)
  have bad: "fst (chunk_transcription (demo_env ''en'' out_of_memory)
          ''output/audio/original_vocal.mp3'' (Finite 0) (Finite 50) demo_world)
     = Inl (Raised (Exception ''CUDA out of memory''))"
    by (simp add: run_defs demo_defs)
  from ok ret bad
    transcription_model_release [where E = "demo_env ''en'' (\<lambda>w. Inr (demo_raw ''en''))"
      and af = "''output/audio/original_vocal.mp3''" and s = "Finite 0" and e = "Finite 50"
      and w = demo_world and x = "(demo_raw ''en'', 20)"
      and r = "adjust_timestamps (Finite 0) demo_aligned"]
    transcription_model_release [where E = "demo_env ''en'' out_of_memory"
      and af = "''output/audio/original_vocal.mp3''" and s = "Finite 0" and e = "Finite 50"
      and w = demo_world and err = "Raised (Exception ''CUDA out of memory'')"]
  show ?thesis by simp
qed

text \<open>
  C6 as stated fails on the failure path: the transcription model is loaded and called,
  the call runs out of accelerator memory, and the invocation raises that error without
  deleting the model or emptying the cache.
\<close>

theorem failed_transcription_counterexample:
  "fst (transcribe_audio (demo_env ''en'' out_of_memory)
          ''output/audio/original_vocal.mp3'' (Finite 0) (Finite 50) demo_world)
     = Inl (Raised (Exception ''CUDA out of memory'')) \<and>
   LoadModel ''large-v3'' Cuda Float16 (Some ''en'') \<in> set (trace (snd (transcribe_audio
          (demo_env ''en'' out_of_memory)
          ''output/audio/original_vocal.mp3'' (Finite 0) (Finite 50) demo_world))) \<and>
   ModelTranscribe 10 20 16 \<in> set (trace (snd (transcribe_audio
          (demo_env ''en'' out_of_memory)
          ''output/audio/original_vocal.mp3'' (Finite 0) (Finite 50) demo_world))) \<and>
   \<not> model_released (trace (snd (transcribe_audio
          (demo_env ''en'' out_of_memory)
          ''output/audio/original_vocal.mp3'' (Finite 0) (Finite 50) demo_world)))"
  by (simp add: run_defs demo_defs model_released_def)

section \<open>The run\<close>

text \<open>
  C4. Take a run that does not find the final transcript, in which the separation and
  the split return the chunks, the chunks before one of them are transcribed, and the
  invocation for that chunk raises, whatever the error. Then the run raises that error
  in the world that the failing invocation left, so that nothing is called after it: no
  later chunk is processed. In the whole run neither \<^verbatim>\<open>process_transcription\<close> nor
  \<^verbatim>\<open>save_results\<close> is called.
\<close>

theorem chunk_failure_aborts_run:
  assumes "final_artifact \<notin> files w"
    and "separate_and_split E v (w\<lparr>trace := trace w @ [PathExists final_artifact]\<rparr>)
           = (Inr (af, before @ (s, e) # rest), w1)"
    and "transcribe_chunks E af before [] w1 = (Inr rs, w2)"
    and "transcribe_audio E af s e w2 = (Inl err, w3)"
  shows "transcribe E v w = (Inl err, w3) \<and>
         list_all (\<lambda>ev. \<not> saving_event ev) (events_since w w3)"
proof -
  define w0 where "w0 = w\<lparr>trace := trace w @ [PathExists final_artifact]\<rparr>"
  have loop: "transcribe_chunks E af (before @ (s, e) # rest) [] w1 = (Inl err, w3)"
    using assms(3,4) by (simp add: transcribe_chunks_append bindM_def)
  with assms(1,2) have run: "transcribe E v w = (Inl err, w3)"
    by (simp add: transcribe_run bindM_def)
  from emitsD [OF emits_separate_and_split assms(2)] obtain evsS where
    S: "trace w1 = trace w @ PathExists final_artifact # evsS" "list_all separation_event evsS"
    by auto
  have "emits (\<lambda>ev. \<not> coordinator_event ev)
      (transcribe_chunks E af (before @ (s, e) # rest) [])"
    by (rule emits_transcribe_chunks)
  from emitsD [OF this loop] obtain evsC where
    C: "trace w3 = trace w1 @ evsC" "list_all (\<lambda>ev. \<not> coordinator_event ev) evsC"
    by blast
  have sep: "\<And>ev. separation_event ev \<Longrightarrow> \<not> saving_event ev"
    by (simp add: separation_event_def saving_event_def split: event.splits)
  have coord: "\<And>ev. \<not> coordinator_event ev \<Longrightarrow> \<not> saving_event ev"
    by (simp add: coordinator_event_def saving_event_def split: event.splits)
  from S C have "events_since w w3 = PathExists final_artifact # evsS @ evsC"
    by (intro events_since_append) simp
  moreover from S(2) sep have "list_all (\<lambda>ev. \<not> saving_event ev) evsS"
    by (simp add: list_all_iff)
  moreover from C(2) coord have "list_all (\<lambda>ev. \<not> saving_event ev) evsC"
    by (simp add: list_all_iff)
  ultimately have "list_all (\<lambda>ev. \<not> saving_event ev) (events_since w w3)"
    by (simp add: saving_event_def)
  with run show ?thesis by simp
qed

text \<open>
  Two chunks, configured English: the first is detected as English, the second as
  Chinese, and the run ends with the language mismatch of the second.
\<close>

theorem chunk_failure_aborts_run_witness:
  "fst (transcribe (demo_env ''en'' english_then_chinese) ''video.mp4'' demo_world)
     = Inl LanguageMismatch \<and>
   list_all (\<lambda>ev. \<not> saving_event ev)
     (events_since demo_world
        (snd (transcribe (demo_env ''en'' english_then_chinese) ''video.mp4'' demo_world)))"
proof -
  define E where "E = demo_env ''en'' english_then_chinese"
  define w0 where "w0 = demo_world\<lparr>trace := trace demo_world @ [PathExists final_artifact]\<rparr>"
  define w1 where "w1 = snd (separate_and_split E ''video.mp4'' w0)"
  define w2 where "w2 = snd (transcribe_chunks E ''output/audio/original_vocal.mp3''
      [(Finite 0, Finite 50)] [] w1)"
  define w3 where "w3 = snd (transcribe_audio E ''output/audio/original_vocal.mp3''
      (Finite 50) (Finite 100) w2)"
  have nf: "final_artifact \<notin> files demo_world"
    by (simp add: demo_world_def)
  have s: "separate_and_split E ''video.mp4''
      (demo_world\<lparr>trace := trace demo_world @ [PathExists final_artifact]\<rparr>) =
      (Inr (''output/audio/original_vocal.mp3'',
            [(Finite 0, Finite 50)] @ (Finite 50, Finite 100) # []), w1)"
    unfolding w1_def w0_def E_def by (simp add: run_defs demo_defs)
  have c: "transcribe_chunks E ''output/audio/original_vocal.mp3'' [(Finite 0, Finite 50)] [] w1 =
      (Inr [adjust_timestamps (Finite 0) demo_aligned], w2)"
    unfolding w2_def w1_def w0_def E_def by (simp add: run_defs demo_defs del: py_add.simps)
  have f: "transcribe_audio E ''output/audio/original_vocal.mp3'' (Finite 50) (Finite 100) w2 =
      (Inl LanguageMismatch, w3)"
    unfolding w3_def w2_def w1_def w0_def E_def by (simp add: run_defs demo_defs del: py_add.simps)
  from chunk_failure_aborts_run [OF nf s c f] show ?thesis
    unfolding E_def by simp
qed

text \<open>
  C5. When the final transcript exists, the run tests for it, prints that the results
  exist, and returns: these are its only two calls. A run that returns leaves the final
  transcript behind, so the next run from there is such a run.
\<close>

theorem finished_run_is_skipped:
  "(final_artifact \<in> files w \<longrightarrow>
      transcribe E v w =
        (Inr (), w\<lparr>trace := trace w @ [PathExists final_artifact, Rprint MsgResultsExist]\<rparr>)) \<and>
   (fst (transcribe E v w) = Inr () \<longrightarrow>
      transcribe E v (snd (transcribe E v w)) =
        (Inr (), (snd (transcribe E v w))
           \<lparr>trace := trace (snd (transcribe E v w)) @
              [PathExists final_artifact, Rprint MsgResultsExist]\<rparr>))"
proof -
  have "fst (transcribe E v w) = Inr () \<Longrightarrow> final_artifact \<in> files (snd (transcribe E v w))"
    by (rule transcribe_success_final [of E v w "()"]) (metis prod.collapse)
  then show ?thesis by (auto simp: transcribe_skip)
qed

text \<open>
  A run that finds the final transcript, and a run over two chunks followed by a second
  run.
\<close>

theorem finished_run_is_skipped_witness:
  "final_artifact \<in> files demo_world_finished \<and>
   transcribe (demo_env ''auto'' two_languages) ''video.mp4'' demo_world_finished =
     (Inr (), \<lparr>files = {''output/log/cleaned_chunks.xlsx''},
              trace = [PathExists final_artifact, Rprint MsgResultsExist]\<rparr>) \<and>
   fst (transcribe (demo_env ''auto'' two_languages) ''video.mp4'' demo_world) = Inr () \<and>
   events_since (snd (transcribe (demo_env ''auto'' two_languages) ''video.mp4'' demo_world))
     (snd (transcribe (demo_env ''auto'' two_languages) ''video.mp4''
        (snd (transcribe (demo_env ''auto'' two_languages) ''video.mp4'' demo_world)))) =
     [PathExists final_artifact, Rprint MsgResultsExist]"
proof -
  have a: "final_artifact \<in> files demo_world_finished"
    by (simp add: demo_world_finished_def final_artifact_def)
  have b: "fst (transcribe (demo_env ''auto'' two_languages) ''video.mp4'' demo_world) = Inr ()"
    by (simp add: run_defs demo_defs del: py_add.simps)
  from a b
    finished_run_is_skipped [of demo_world_finished "demo_env ''auto'' two_languages" "''video.mp4''"]
    finished_run_is_skipped [of demo_world "demo_env ''auto'' two_languages" "''video.mp4''"]
  show ?thesis
    by (simp add: events_since_def demo_world_finished_def)
qed

text \<open>
  C8, as the code has it. The configuration is derived inside \<^verbatim>\<open>transcribe_audio\<close>: every
  chunk invocation probes the accelerator exactly once and derives the configuration of
  the run's hardware, the same every time. A run that returns has derived it once for
  each chunk.
\<close>

theorem config_derived_per_chunk:
  "length (filter ((=) CudaIsAvailable) (events_since w (snd (transcribe_audio E af s e w)))) = 1 \<and>
   fst (announce E s e w) = Inr (inference_config (hardware E)) \<and>
   (final_artifact \<notin> files w \<and> fst (transcribe E v w) = Inr () \<and>
    fst (separate_and_split E v (w\<lparr>trace := trace w @ [PathExists final_artifact]\<rparr>))
      = Inr (af', chunks)
    \<longrightarrow> length (filter ((=) CudaIsAvailable) (events_since w (snd (transcribe E v w))))
          = length chunks)"
proof -
  have "length (filter ((=) CudaIsAvailable) (events_since w (snd (transcribe E v w))))
      = length chunks"
    if nf: "final_artifact \<notin> files w" and ok: "fst (transcribe E v w) = Inr ()"
      and sp: "fst (separate_and_split E v (w\<lparr>trace := trace w @ [PathExists final_artifact]\<rparr>))
        = Inr (af', chunks)"
  proof (rule run_count [where Q = "(=) CudaIsAvailable", OF _ _ _ nf _ sp])
    show "transcribe E v w = (Inr (), snd (transcribe E v w))"
      using ok by (metis prod.collapse)
    show "\<And>ev. separation_event ev \<Longrightarrow> CudaIsAvailable \<noteq> ev"
      by (auto simp: separation_event_def)
    show "\<And>ev. saving_event ev \<Longrightarrow> CudaIsAvailable \<noteq> ev"
      by (auto simp: saving_event_def)
    show "\<And>af s e w r w'. transcribe_audio E af s e w = (Inr r, w') \<Longrightarrow>
        length (filter ((=) CudaIsAvailable) (events_since w w')) = 1"
      using chunk_probes_once by (metis snd_conv)
  qed
  moreover have "fst (announce E s e w) = Inr (inference_config (hardware E))"
    by (subst announce_result) simp
  ultimately show ?thesis using chunk_probes_once by blast
qed

text \<open>A run over two chunks.\<close>

theorem config_derived_per_chunk_witness:
  "final_artifact \<notin> files demo_world \<and>
   fst (transcribe (demo_env ''auto'' two_languages) ''video.mp4'' demo_world) = Inr () \<and>
   length (filter ((=) CudaIsAvailable) (events_since demo_world
     (snd (transcribe (demo_env ''auto'' two_languages) ''video.mp4'' demo_world)))) =
   length [(Finite 0, Finite 50), (Finite 50, Finite 100)]"
proof -
  have nf: "final_artifact \<notin> files demo_world"
    by (simp add: demo_world_def)
  have ok: "fst (transcribe (demo_env ''auto'' two_languages) ''video.mp4'' demo_world) = Inr ()"
    by (simp add: run_defs demo_defs del: py_add.simps)
  have sp: "fst (separate_and_split (demo_env ''auto'' two_languages) ''video.mp4''
      (demo_world\<lparr>trace := trace demo_world @ [PathExists final_artifact]\<rparr>)) =
      Inr (''output/audio/original_vocal.mp3'', [(Finite 0, Finite 50), (Finite 50, Finite 100)])"
    by (simp add: run_defs demo_defs)
  from nf ok sp config_derived_per_chunk [where w = demo_world
      and E = "demo_env ''auto'' two_languages" and v = "''video.mp4''"
      and af' = "''output/audio/original_vocal.mp3''"
      and chunks = "[(Finite 0, Finite 50), (Finite 50, Finite 100)]"]
  show ?thesis by blast
qed

text \<open>
  C8 as stated fails: in a run over two chunks the accelerator is probed twice, both
  times after the audio was split.
\<close>

theorem config_derived_twice_counterexample:
  "fst (transcribe (demo_env ''auto'' two_languages) ''video.mp4'' demo_world) = Inr () \<and>
   filter (\<lambda>ev. ev = CudaIsAvailable \<or> ev = SplitAudio ''output/audio/original_vocal.mp3'')
     (trace (snd (transcribe (demo_env ''auto'' two_languages) ''video.mp4'' demo_world))) =
   [SplitAudio ''output/audio/original_vocal.mp3'', CudaIsAvailable, CudaIsAvailable]"
  by (simp add: run_defs demo_defs del: py_add.simps)

text \<open>
  C9, as the code has it. The language is saved inside \<^verbatim>\<open>transcribe_audio\<close>: a chunk
  invocation saves the language detected for its chunk once when the transcription of
  the chunk returned, and saves nothing when it raised. Merging and handing over the
  results saves no language. A run that returns has saved a language once for each
  chunk.
\<close>

theorem language_saved_per_chunk:
  "filter is_save_language (events_since w (snd (transcribe_audio E af s e w))) =
     (case fst (chunk_transcription E af s e w) of
        Inl err \<Rightarrow> [] | Inr x \<Rightarrow> [SaveLanguage (language (fst x))]) \<and>
   filter is_save_language (events_since w (snd (combine_and_save E rs w))) = [] \<and>
   (final_artifact \<notin> files w \<and> fst (transcribe E v w) = Inr () \<and>
    fst (separate_and_split E v (w\<lparr>trace := trace w @ [PathExists final_artifact]\<rparr>))
      = Inr (af', chunks)
    \<longrightarrow> length (filter is_save_language (events_since w (snd (transcribe E v w))))
          = length chunks)"
proof -
  have chunk: "filter is_save_language (events_since w (snd (transcribe_audio E af s e w))) =
     (case fst (chunk_transcription E af s e w) of
        Inl err \<Rightarrow> [] | Inr x \<Rightarrow> [SaveLanguage (language (fst x))])" for af s e w
  proof (cases rule: chunk_transcription_cases [of E af s e w])
    case (raised err w2)
    from chunk_saves_language [OF raised(1)] raised(2) show ?thesis by simp
  next
    case (returned x w2)
    from chunk_saves_language [OF returned(1)] returned(2) show ?thesis by simp
  qed
  have save: "filter is_save_language (events_since w (snd (combine_and_save E rs w))) = []"
  proof -
    obtain r w' where c: "combine_and_save E rs w = (r, w')"
      by (cases "combine_and_save E rs w")
    from emitsD [OF emits_combine_and_save c] obtain evs where
      evs: "trace w' = trace w @ evs" "list_all saving_event evs" by blast
    have "filter is_save_language evs = []"
      using evs(2) by (rule filter_none) (auto simp: saving_event_def is_save_language_def
          split: event.splits)
    with c evs(1) show ?thesis by (simp add: events_since_def)
  qed
  have "length (filter is_save_language (events_since w (snd (transcribe E v w))))
      = length chunks"
    if nf: "final_artifact \<notin> files w" and ok: "fst (transcribe E v w) = Inr ()"
      and sp: "fst (separate_and_split E v (w\<lparr>trace := trace w @ [PathExists final_artifact]\<rparr>))
        = Inr (af', chunks)"
  proof (rule run_count [where Q = is_save_language, OF _ _ _ nf _ sp])
    show "transcribe E v w = (Inr (), snd (transcribe E v w))"
      using ok by (metis prod.collapse)
    show "\<And>ev. separation_event ev \<Longrightarrow> \<not> is_save_language ev"
      by (auto simp: separation_event_def is_save_language_def split: event.splits)
    show "\<And>ev. saving_event ev \<Longrightarrow> \<not> is_save_language ev"
      by (auto simp: saving_event_def is_save_language_def split: event.splits)
    show "length (filter is_save_language (events_since w w')) = 1"
      if t: "transcribe_audio E af s e w = (Inr r, w')" for af s e w r w'
    proof (cases rule: chunk_transcription_cases [of E af s e w])
      case (raised err w2)
      from chunk_release [OF raised(1)] t show ?thesis by simp
    next
      case (returned x w2)
      from chunk_saves_language [OF returned(1)] t show ?thesis by simp
    qed
  qed
  with chunk save show ?thesis by blast
qed

text \<open>A run over two chunks.\<close>

theorem language_saved_per_chunk_witness:
  "final_artifact \<notin> files demo_world \<and>
   fst (transcribe (demo_env ''auto'' two_languages) ''video.mp4'' demo_world) = Inr () \<and>
   length (filter is_save_language (events_since demo_world
     (snd (transcribe (demo_env ''auto'' two_languages) ''video.mp4'' demo_world)))) =
   length [(Finite 0, Finite 50), (Finite 50, Finite 100)]"
proof -
  have nf: "final_artifact \<notin> files demo_world"
    by (simp add: demo_world_def)
  have ok: "fst (transcribe (demo_env ''auto'' two_languages) ''video.mp4'' demo_world) = Inr ()"
    by (simp add: run_defs demo_defs del: py_add.simps)
  have sp: "fst (separate_and_split (demo_env ''auto'' two_languages) ''video.mp4''
      (demo_world\<lparr>trace := trace demo_world @ [PathExists final_artifact]\<rparr>)) =
      Inr (''output/audio/original_vocal.mp3'', [(Finite 0, Finite 50), (Finite 50, Finite 100)])"
    by (simp add: run_defs demo_defs)
  from nf ok sp language_saved_per_chunk [where w = demo_world
      and E = "demo_env ''auto'' two_languages" and v = "''video.mp4''"
      and af' = "''output/audio/original_vocal.mp3''"
      and chunks = "[(Finite 0, Finite 50), (Finite 50, Finite 100)]"]
  show ?thesis by blast
qed

text \<open>
  C9 as stated fails: in a run over two chunks, detected as English and as French, the
  language is saved twice, both times before the results are merged and handed over, and
  the second time it is French, not the language observed first.
\<close>

theorem language_saved_twice_counterexample:
  "fst (transcribe (demo_env ''auto'' two_languages) ''video.mp4'' demo_world) = Inr () \<and>
   filter (\<lambda>ev. is_save_language ev \<or> saving_event ev)
     (trace (snd (transcribe (demo_env ''auto'' two_languages) ''video.mp4'' demo_world))) =
   [SaveLanguage ''en'', SaveLanguage ''fr'',
    ProcessTranscription (segments (adjust_timestamps (Finite 0) demo_aligned) @
                          segments (adjust_timestamps (Finite 50) demo_aligned)),
    SaveResults 50]"
  by (simp add: run_defs demo_defs is_save_language_def saving_event_def del: py_add.simps)




section \<open>The separation\<close>



end
